theory Spec2Isabelle
  imports Complex_Main
begin

section \<open>JavaScript values\<close>

text \<open>
  The samples are TypeScript running on Node. Values of type \<open>any\<close> (parsed JSON bodies,
  tool arguments) are modelled by the datatype below. \<open>JBuiltin\<close> is an object or function
  of the language itself, named by its path (\<open>Object.prototype.toString\<close>); no JSON text
  parses to one. A plain object is the list of its own enumerable properties, with distinct
  keys, in the order of their creation; its prototype is \<open>Object.prototype\<close>, with the
  members the language gives it. A \<open>Map\<close> is the list of its entries in insertion order.
\<close>

datatype jsval =
    JUndefined
  | JNull
  | JBool bool
  | JNum real
  | JStr string
  | JArr "jsval list"
  | JObj "(string \<times> jsval) list"
  | JBuiltin string

type_synonym js_object = "(string \<times> jsval) list"

text \<open>
  The members that every plain object inherits from \<open>Object.prototype\<close>: eleven functions,
  and the accessor \<open>__proto__\<close>, whose getter returns the prototype itself.
\<close>

definition objectPrototypeFunctions :: "string list" where
  "objectPrototypeFunctions =
     [''constructor'', ''__defineGetter__'', ''__defineSetter__'', ''hasOwnProperty'',
      ''__lookupGetter__'', ''__lookupSetter__'', ''isPrototypeOf'', ''propertyIsEnumerable'',
      ''toString'', ''valueOf'', ''toLocaleString'']"

definition inherited :: "string \<Rightarrow> jsval option" where
  "inherited key =
     (if key = ''__proto__'' then Some (JBuiltin ''Object.prototype'')
      else if key \<in> set objectPrototypeFunctions then Some (JBuiltin (''Object.prototype.'' @ key))
      else None)"

text \<open>
  \<open>obj[key]\<close> on a plain object: the value of the own property, else the inherited member,
  else \<open>undefined\<close>.
\<close>

definition property :: "js_object \<Rightarrow> string \<Rightarrow> jsval" where
  "property obj key =
     (case map_of obj key of
        Some v \<Rightarrow> v
      | None \<Rightarrow> (case inherited key of Some member \<Rightarrow> member | None \<Rightarrow> JUndefined))"

text \<open>
  \<open>Map.prototype.set\<close>, and the creation or update of an own property: an existing key
  keeps its position and gets the new value, a new key goes to the end.
\<close>

primrec map_set :: "'k \<Rightarrow> 'v \<Rightarrow> ('k \<times> 'v) list \<Rightarrow> ('k \<times> 'v) list" where
  "map_set k v [] = [(k, v)]"
| "map_set k v (e # es) = (if fst e = k then (k, v) # es else e # map_set k v es)"

text \<open>
  The assignment \<open>obj[key] = value\<close> of an object \<open>value\<close> to a plain object. For the key
  \<open>__proto__\<close> it runs the inherited setter, which replaces the prototype and creates no
  own property; for every other key it creates or updates the own property (the inherited
  functions are writable data properties).
\<close>

definition assignProperty :: "(string \<times> 'v) list \<Rightarrow> string \<Rightarrow> 'v \<Rightarrow> (string \<times> 'v) list" where
  "assignProperty obj key v = (if key = ''__proto__'' then obj else map_set key v obj)"

text \<open>
  The order in which \<open>Object.keys\<close> and \<open>Object.entries\<close> list the own properties: first
  the keys that are array indices (the decimal text, without sign or leading zero, of a
  whole number below \<open>2^32 - 1\<close>) in ascending numeric order, then all other keys in the order
  of their creation.
\<close>

definition digitValue :: "char \<Rightarrow> nat option" where
  "digitValue c = map_of (zip ''0123456789'' [0, 1, 2, 3, 4, 5, 6, 7, 8, 9]) c"

definition decimalValue :: "string \<Rightarrow> nat" where
  "decimalValue s = foldl (\<lambda>n c. 10 * n + (case digitValue c of Some d \<Rightarrow> d | None \<Rightarrow> 0)) 0 s"

definition isArrayIndex :: "string \<Rightarrow> bool" where
  "isArrayIndex s =
     (s \<noteq> [] \<and> list_all (\<lambda>c. digitValue c \<noteq> None) s
      \<and> (if hd s = CHR ''0'' then s = ''0'' else True)
      \<and> decimalValue s < 4294967295)"

definition Object_entries :: "(string \<times> 'v) list \<Rightarrow> (string \<times> 'v) list" where
  "Object_entries obj =
     sort_key (\<lambda>e. decimalValue (fst e)) (filter (\<lambda>e. isArrayIndex (fst e)) obj)
     @ filter (\<lambda>e. \<not> isArrayIndex (fst e)) obj"

definition Object_keys :: "(string \<times> 'v) list \<Rightarrow> string list" where
  "Object_keys obj = map fst (Object_entries obj)"

text \<open>
  A thrown value. \<open>new Error(m)\<close> is \<open>ErrorObject ''Error'' m\<close>, and \<open>Thrown s\<close> is any other
  value whose conversion to a string gives \<open>s\<close>. Two kinds of value have no such conversion:
  a symbol (given by its description), and a value that a \<open>catch\<close> block cannot print,
  because writing it to the log or converting it to a string throws (an object without
  prototype, an object whose \<open>toString\<close> throws); it is given by what is thrown then.
\<close>

datatype js_thrown =
    ErrorObject string string
  | Thrown string
  | ThrownSymbol string
  | Unconvertible js_thrown

text \<open>
  The two ways in which the \<open>catch\<close> blocks of the samples turn the caught value into
  text, each after \<open>console.error\<close> has written it to the log: \<open>templateString\<close> is the
  conversion that a template literal \<open>`${error}`\<close> makes (\<open>Error.prototype.toString\<close> for error
  objects), \<open>String_of\<close> is the call \<open>String(error)\<close>. Each gives the text or the value
  thrown; they differ on symbols only.
\<close>

fun String_of :: "js_thrown \<Rightarrow> js_thrown + string" where
  "String_of (ErrorObject nm msg) =
     Inr (if nm = [] then msg else if msg = [] then nm else nm @ '': '' @ msg)"
| "String_of (Thrown s) = Inr s"
| "String_of (ThrownSymbol d) = Inr (''Symbol('' @ d @ '')'')"
| "String_of (Unconvertible e) = Inl e"

fun templateString :: "js_thrown \<Rightarrow> js_thrown + string" where
  "templateString (ThrownSymbol d) = Inl (ErrorObject ''TypeError'' ''Cannot convert a Symbol value to a string'')"
| "templateString error = String_of error"

section \<open>Tool.ts: the tool registry\<close>

datatype param_type = TString | TNumber | TBoolean | TObject | TArray

text \<open>\<open>required\<close> is an optional field: \<open>None\<close> when the field is absent.\<close>

record ToolParameter =
  param_type :: param_type
  param_description :: string
  required :: "bool option"

text \<open>
  \<open>parameters\<close> holds the own properties of the \<open>parameters\<close> record in the order of their
  creation (for an object literal, the order in which the source declares them).
  \<open>handler\<close> returns a promise: \<open>Inr\<close> the string it resolves to, \<open>Inl\<close> the value it
  throws or rejects with.
\<close>

record ToolDefinition =
  name :: string
  description :: string
  parameters :: "(string \<times> ToolParameter) list"
  handler :: "jsval list \<Rightarrow> js_thrown + string"

type_synonym ToolRegistry = "(string \<times> ToolDefinition) list"

definition registerTool :: "ToolRegistry \<Rightarrow> ToolDefinition \<Rightarrow> ToolRegistry" where
  "registerTool tools toolDef = map_set (name toolDef) toolDef tools"

definition toolNotFound :: "string \<Rightarrow> js_thrown" where
  "toolNotFound toolName =
     ErrorObject ''Error'' (''Tool '' @ [CHR 0x27] @ toolName @ [CHR 0x27] @ '' not found in registry'')"

text \<open>
  The positional argument list of \<open>executeTool\<close> (lines 62-63), for a plain argument
  object.
\<close>

definition argArray :: "ToolDefinition \<Rightarrow> js_object \<Rightarrow> jsval list" where
  "argArray tool args =
     (let paramNames = Object_keys (parameters tool)
      in map (\<lambda>paramName. property args paramName) paramNames)"

text \<open>
  \<open>executeTool\<close>: \<open>Inr\<close> the string the promise resolves to, \<open>Inl\<close> the value it rejects
  with. The \<open>catch\<close> block builds its answer with a template literal, whose conversion of
  the caught value can throw in turn; nothing catches that.
\<close>

definition executeTool :: "ToolRegistry \<Rightarrow> string \<Rightarrow> js_object \<Rightarrow> js_thrown + string" where
  "executeTool tools toolName args =
     (case map_of tools toolName of
        None \<Rightarrow> Inl (toolNotFound toolName)
      | Some tool \<Rightarrow>
          (case handler tool (argArray tool args) of
             Inr result \<Rightarrow> Inr result
           | Inl error \<Rightarrow>
               (case templateString error of
                  Inr text \<Rightarrow> Inr (''Error executing '' @ toolName @ '': '' @ text)
                | Inl conversionError \<Rightarrow> Inl conversionError)))"

record schema_property =
  prop_type :: param_type
  prop_description :: string

text \<open>
  The schema of one tool. \<open>properties\<close> holds the own properties of the object that the
  \<open>reduce\<close> builds, which are what the schema shows when it is serialised.
\<close>

record schema_parameters =
  schema_type :: string
  properties :: "(string \<times> schema_property) list"
  required_names :: "string list"

record schema_function =
  fn_name :: string
  fn_description :: string
  fn_parameters :: schema_parameters

record ChatCompletionTool =
  tool_type :: string
  tool_function :: schema_function

definition getOpenAISchema :: "ToolRegistry \<Rightarrow> ChatCompletionTool list" where
  "getOpenAISchema tools =
     map (\<lambda>tool.
        \<lparr>tool_type = ''function'',
         tool_function =
           \<lparr>fn_name = name tool,
            fn_description = description tool,
            fn_parameters =
              \<lparr>schema_type = ''object'',
               properties =
                 foldl (\<lambda>props (nm, param).
                     assignProperty props nm \<lparr>prop_type = param_type param,
                                               prop_description = param_description param\<rparr>)
                   [] (Object_entries (parameters tool)),
               required_names =
                 map fst (filter (\<lambda>(nm, param). required param \<noteq> Some False)
                            (Object_entries (parameters tool)))\<rparr>\<rparr>\<rparr>)
       (map snd tools)"

definition getToolNames :: "ToolRegistry \<Rightarrow> string list" where
  "getToolNames tools = map fst tools"

definition hasTool :: "ToolRegistry \<Rightarrow> string \<Rightarrow> bool" where
  "hasTool tools toolName = (map_of tools toolName \<noteq> None)"

definition getToolCount :: "ToolRegistry \<Rightarrow> nat" where
  "getToolCount tools = length tools"

text \<open>A sequence of \<open>registerTool\<close> calls on a new registry.\<close>

definition registerAll :: "ToolDefinition list \<Rightarrow> ToolRegistry" where
  "registerAll defs = foldl registerTool [] defs"

text \<open>
  The rendering of one tool as section 4.1 of the specification words it: one property
  per parameter with its type and description, and the names whose \<open>required\<close> field is
  not \<open>false\<close>, the parameters taken in the order in which the record enumerates them. It
  is compared with \<open>getOpenAISchema\<close> below.
\<close>

definition describeTool :: "ToolDefinition \<Rightarrow> ChatCompletionTool" where
  "describeTool tool =
     \<lparr>tool_type = ''function'',
      tool_function =
        \<lparr>fn_name = name tool,
         fn_description = description tool,
         fn_parameters =
           \<lparr>schema_type = ''object'',
            properties =
              map (\<lambda>(nm, param). (nm, \<lparr>prop_type = param_type param,
                                         prop_description = param_description param\<rparr>))
                (Object_entries (parameters tool)),
            required_names =
              [nm. (nm, param) \<leftarrow> Object_entries (parameters tool), required param \<noteq> Some False]\<rparr>\<rparr>\<rparr>"

text \<open>The definition registered last under a name, and the names in order of first registration.\<close>

definition latest :: "ToolDefinition list \<Rightarrow> string \<Rightarrow> ToolDefinition option" where
  "latest defs nm = List.find (\<lambda>d. name d = nm) (rev defs)"

definition registrationOrder :: "ToolDefinition list \<Rightarrow> string list" where
  "registrationOrder defs = rev (remdups (rev (map name defs)))"

subsection \<open>Example tools\<close>

definition echoTool :: ToolDefinition where
  "echoTool =
     \<lparr>name = ''echo'',
      description = ''Reports the arguments it receives'',
      parameters =
        [(''a'', \<lparr>param_type = TNumber, param_description = ''first'', required = Some True\<rparr>),
         (''b'', \<lparr>param_type = TNumber, param_description = ''second'', required = Some True\<rparr>),
         (''c'', \<lparr>param_type = TString, param_description = ''third'', required = Some False\<rparr>)],
      handler = (\<lambda>vs. if vs = [JNum 1, JNum 2, JUndefined] then Inr ''received (1, 2, undefined)''
                       else Inr ''received something else'')\<rparr>"

definition failingTool :: ToolDefinition where
  "failingTool =
     \<lparr>name = ''explode'',
      description = ''Always fails'',
      parameters = [],
      handler = (\<lambda>vs. Inl (ErrorObject ''Error'' ''boom''))\<rparr>"

text \<open>
  Tools that TypeScript accepts as \<open>ToolDefinition\<close>: a handler that rejects with a symbol,
  parameters named by numbers, a parameter named like a member of \<open>Object.prototype\<close>, and a
  parameter named \<open>__proto__\<close> (an own property, as a computed key or \<open>JSON.parse\<close> creates it).
\<close>

definition symbolTool :: ToolDefinition where
  "symbolTool =
     \<lparr>name = ''signal'',
      description = ''Rejects with a symbol'',
      parameters = [],
      handler = (\<lambda>vs. Inl (ThrownSymbol ''boom''))\<rparr>"

definition reportArguments :: "jsval list \<Rightarrow> js_thrown + string" where
  "reportArguments vs =
     Inr (concat (map (\<lambda>v. case v of JStr s \<Rightarrow> ''<'' @ s @ ''>''
                               | JUndefined \<Rightarrow> ''<undefined>''
                               | JBuiltin path \<Rightarrow> ''<function '' @ path @ ''>''
                               | other \<Rightarrow> ''<value>'') vs))"

definition numberedTool :: ToolDefinition where
  "numberedTool =
     \<lparr>name = ''numbered'',
      description = ''Parameters named by numbers'',
      parameters =
        [(''10'', \<lparr>param_type = TString, param_description = ''declared first'', required = Some True\<rparr>),
         (''2'', \<lparr>param_type = TString, param_description = ''declared second'', required = Some True\<rparr>)],
      handler = reportArguments\<rparr>"

definition constructorTool :: ToolDefinition where
  "constructorTool =
     \<lparr>name = ''build'',
      description = ''A parameter named constructor'',
      parameters =
        [(''constructor'', \<lparr>param_type = TString, param_description = ''optional'', required = Some False\<rparr>)],
      handler = reportArguments\<rparr>"

definition protoTool :: ToolDefinition where
  "protoTool =
     \<lparr>name = ''inspect'',
      description = ''A parameter named __proto__'',
      parameters =
        [(''__proto__'', \<lparr>param_type = TObject, param_description = ''prototype'', required = Some True\<rparr>),
         (''depth'', \<lparr>param_type = TNumber, param_description = ''levels'', required = Some False\<rparr>)],
      handler = (\<lambda>vs. Inr ''inspected'')\<rparr>"

definition transferV1 :: ToolDefinition where
  "transferV1 =
     \<lparr>name = ''transfer'',
      description = ''Transfer money'',
      parameters =
        [(''amount'', \<lparr>param_type = TNumber, param_description = ''Amount'', required = None\<rparr>)],
      handler = (\<lambda>vs. Inr ''done'')\<rparr>"

definition checkBalance :: ToolDefinition where
  "checkBalance =
     \<lparr>name = ''checkBalance'',
      description = ''Check the balance'',
      parameters = [],
      handler = (\<lambda>vs. Inr ''42'')\<rparr>"

definition transferV2 :: ToolDefinition where
  "transferV2 =
     \<lparr>name = ''transfer'',
      description = ''Transfer money with a memo'',
      parameters =
        [(''amount'', \<lparr>param_type = TNumber, param_description = ''Amount'', required = Some True\<rparr>),
         (''memo'', \<lparr>param_type = TString, param_description = ''Memo'', required = Some False\<rparr>)],
      handler = (\<lambda>vs. Inr ''done with memo'')\<rparr>"


section \<open>The conversation entity\<close>

text \<open>
  Every timestamp is a fresh \<open>new Date().toISOString()\<close>. One invocation of an entity
  operation reads the clock at up to four places, each at most once; the values read are
  inputs of the model, one field per place.
\<close>

type_synonym timestamp = string

record clock_reads =
  initCreatedAt :: timestamp
  initLastUpdated :: timestamp
  stampedAt :: timestamp
  updatedAt :: timestamp

datatype role = User | Assistant | System

record ChatMessage =
  role :: role
  content :: string
  timestamp :: timestamp

record ConversationState =
  chatHistory :: "ChatMessage list"
  createdAt :: timestamp
  lastUpdated :: timestamp

text \<open>
  \<open>context.df.getState(init)\<close>: the stored state, or the value of the initialiser when the
  entity has no state yet. Only \<open>setState\<close> stores a state.
\<close>

definition getState :: "'s option \<Rightarrow> 's \<Rightarrow> 's" where
  "getState stored init = (case stored of Some st \<Rightarrow> st | None \<Rightarrow> init)"

text \<open>
  The \<open>addMessage\<close> case is the same text in all three entities; it is modelled once, on
  any state record that has the three fields above.
\<close>

definition addMessage ::
  "clock_reads \<Rightarrow> role \<Rightarrow> string \<Rightarrow> 'z ConversationState_scheme \<Rightarrow> 'z ConversationState_scheme" where
  "addMessage clk r c state =
     state\<lparr>chatHistory := chatHistory state @ [\<lparr>role = r, content = c, timestamp = stampedAt clk\<rparr>],
           lastUpdated := updatedAt clk\<rparr>"

text \<open>\<open>xs.slice(-5)\<close>: the last five elements, or all of them when there are fewer.\<close>

definition slice_last5 :: "'a list \<Rightarrow> 'a list" where
  "slice_last5 xs = drop (length xs - 5) xs"

subsection \<open>The entity of the plain agent (multi-durable-agent-function, durableAgentOrchestrator.ts)\<close>

datatype operation = AddMessage role string | GetState | GetFullHistory | OtherOperation

datatype reply =
    Success
  | StateSummary nat timestamp timestamp "ChatMessage list"
  | FullHistory "ChatMessage list"
  | WholeState ConversationState

definition initialState :: "clock_reads \<Rightarrow> ConversationState" where
  "initialState clk =
     \<lparr>chatHistory = [], createdAt = initCreatedAt clk, lastUpdated = initLastUpdated clk\<rparr>"

fun conversationEntity ::
  "clock_reads \<Rightarrow> ConversationState option \<Rightarrow> operation \<Rightarrow> ConversationState option \<times> reply" where
  "conversationEntity clk stored (AddMessage r c) =
     (let state = getState stored (initialState clk)
      in (Some (addMessage clk r c state), Success))"
| "conversationEntity clk stored GetState =
     (let state = getState stored (initialState clk)
      in (stored, StateSummary (length (chatHistory state)) (createdAt state) (lastUpdated state)
                    (slice_last5 (chatHistory state))))"
| "conversationEntity clk stored GetFullHistory =
     (let state = getState stored (initialState clk)
      in (stored, FullHistory (chatHistory state)))"
| "conversationEntity clk stored OtherOperation =
     (let state = getState stored (initialState clk)
      in (stored, WholeState state))"

subsection \<open>Approval requests (human-in-loop-sample)\<close>

datatype approval_status = Pending | Approved | Rejected

datatype decision = DecisionApproved | DecisionRejected

fun statusOf :: "decision \<Rightarrow> approval_status" where
  "statusOf DecisionApproved = Approved"
| "statusOf DecisionRejected = Rejected"

text \<open>
  The fields the two \<open>HumanApprovalRequest\<close> interfaces share. \<open>durableWrapper.ts\<close> adds
  \<open>id\<close>, \<open>durableAgentOrchestrator.ts\<close> adds \<open>sessionId\<close>. Optional fields are \<open>None\<close>
  when absent.
\<close>

record ApprovalFields =
  toolName :: string
  toolArgs :: js_object
  reasoning :: string
  requestTimestamp :: timestamp
  status :: approval_status
  humanResponse :: "string option"
  humanResponseTimestamp :: "timestamp option"

record HumanApprovalRequest = ApprovalFields +
  id' :: string

record SessionApprovalRequest = ApprovalFields +
  sessionId :: string

record 'a ApprovalConversationState = ConversationState +
  pendingApprovals :: "'a list"

definition initialApprovalState :: "clock_reads \<Rightarrow> 'a ApprovalConversationState" where
  "initialApprovalState clk =
     \<lparr>chatHistory = [], createdAt = initCreatedAt clk, lastUpdated = initLastUpdated clk,
      pendingApprovals = []\<rparr>"

text \<open>
  The mutation of \<open>handleApproval\<close>: \<open>approval\<close> is the element \<open>find\<close> returned, an alias
  of an element of \<open>state.pendingApprovals\<close>; assigning to its fields changes the first
  element of the list that satisfies the predicate and no other.
\<close>

fun updateFirst :: "('a \<Rightarrow> bool) \<Rightarrow> ('a \<Rightarrow> 'a) \<Rightarrow> 'a list \<Rightarrow> 'a list" where
  "updateFirst P f [] = []"
| "updateFirst P f (x # xs) = (if P x then f x # xs else x # updateFirst P f xs)"

definition resolve ::
  "clock_reads \<Rightarrow> decision \<Rightarrow> string option \<Rightarrow> 'z ApprovalFields_scheme \<Rightarrow> 'z ApprovalFields_scheme" where
  "resolve clk d response approval =
     approval\<lparr>status := statusOf d,
              humanResponse := response,
              humanResponseTimestamp := Some (stampedAt clk)\<rparr>"

text \<open>The object that the \<open>getState\<close> case returns.\<close>

record 'a state_summary =
  messageCount :: nat
  pendingApprovalCount :: nat
  summaryCreatedAt :: timestamp
  summaryLastUpdated :: timestamp
  recentMessages :: "ChatMessage list"
  summaryApprovals :: "'a list"

subsection \<open>The entity of durableWrapper.ts (requests found by id)\<close>

datatype w_operation =
    W_AddMessage role string
  | W_AddApprovalRequest string js_object string
  | W_HandleApproval string decision "string option"
  | W_GetPendingApprovals
  | W_GetState
  | W_GetFullHistory
  | W_OtherOperation

datatype w_reply =
    W_Success
  | W_Created string
  | W_Resolved HumanApprovalRequest
  | W_Failure string
  | W_Approvals "HumanApprovalRequest list"
  | W_Summary "HumanApprovalRequest state_summary"
  | W_FullHistory "ChatMessage list" "HumanApprovalRequest list"
  | W_WholeState "HumanApprovalRequest ApprovalConversationState"

text \<open>\<open>guid\<close> is the value \<open>generateGuid()\<close> returns in this invocation.\<close>

fun wrapperEntity ::
  "clock_reads \<Rightarrow> string \<Rightarrow> HumanApprovalRequest ApprovalConversationState option \<Rightarrow> w_operation
     \<Rightarrow> HumanApprovalRequest ApprovalConversationState option \<times> w_reply" where
  "wrapperEntity clk guid stored (W_AddMessage r c) =
     (let state = getState stored (initialApprovalState clk)
      in (Some (addMessage clk r c state), W_Success))"
| "wrapperEntity clk guid stored (W_AddApprovalRequest tn targs why) =
     (let state = getState stored (initialApprovalState clk);
          approvalRequest =
            \<lparr>toolName = tn, toolArgs = targs, reasoning = why,
             requestTimestamp = stampedAt clk, status = Pending,
             humanResponse = None, humanResponseTimestamp = None, id' = guid\<rparr>
      in (Some (state\<lparr>pendingApprovals := pendingApprovals state @ [approvalRequest],
                      lastUpdated := updatedAt clk\<rparr>),
          W_Created (id' approvalRequest)))"
| "wrapperEntity clk guid stored (W_HandleApproval approvalId d response) =
     (let state = getState stored (initialApprovalState clk)
      in case List.find (\<lambda>a. id' a = approvalId) (pendingApprovals state) of
           Some approval \<Rightarrow>
             (Some (state\<lparr>pendingApprovals :=
                            updateFirst (\<lambda>a. id' a = approvalId) (resolve clk d response)
                              (pendingApprovals state),
                          lastUpdated := updatedAt clk\<rparr>),
              W_Resolved (resolve clk d response approval))
         | None \<Rightarrow> (stored, W_Failure ''Approval request not found''))"
| "wrapperEntity clk guid stored W_GetPendingApprovals =
     (let state = getState stored (initialApprovalState clk)
      in (stored, W_Approvals (filter (\<lambda>a. status a = Pending) (pendingApprovals state))))"
| "wrapperEntity clk guid stored W_GetState =
     (let state = getState stored (initialApprovalState clk)
      in (stored,
          W_Summary
            \<lparr>messageCount = length (chatHistory state),
             pendingApprovalCount = length (filter (\<lambda>a. status a = Pending) (pendingApprovals state)),
             summaryCreatedAt = createdAt state,
             summaryLastUpdated = lastUpdated state,
             recentMessages = slice_last5 (chatHistory state),
             summaryApprovals = filter (\<lambda>a. status a = Pending) (pendingApprovals state)\<rparr>))"
| "wrapperEntity clk guid stored W_GetFullHistory =
     (let state = getState stored (initialApprovalState clk)
      in (stored, W_FullHistory (chatHistory state) (pendingApprovals state)))"
| "wrapperEntity clk guid stored W_OtherOperation =
     (let state = getState stored (initialApprovalState clk)
      in (stored, W_WholeState state))"

subsection \<open>The entity of the human-in-loop durableAgentOrchestrator.ts (requests found by session)\<close>

datatype o_operation =
    O_AddMessage role string
  | O_AddApprovalRequest string string js_object string
  | O_HandleApproval string decision "string option"
  | O_GetPendingApprovals
  | O_GetState
  | O_GetFullHistory
  | O_OtherOperation

datatype o_reply =
    O_Success
  | O_Created string
  | O_Resolved SessionApprovalRequest
  | O_Failure string
  | O_Approvals "SessionApprovalRequest list"
  | O_Summary "SessionApprovalRequest state_summary"
  | O_FullHistory "ChatMessage list" "SessionApprovalRequest list"
  | O_WholeState "SessionApprovalRequest ApprovalConversationState"

fun orchestratorEntity ::
  "clock_reads \<Rightarrow> SessionApprovalRequest ApprovalConversationState option \<Rightarrow> o_operation
     \<Rightarrow> SessionApprovalRequest ApprovalConversationState option \<times> o_reply" where
  "orchestratorEntity clk stored (O_AddMessage r c) =
     (let state = getState stored (initialApprovalState clk)
      in (Some (addMessage clk r c state), O_Success))"
| "orchestratorEntity clk stored (O_AddApprovalRequest sid tn targs why) =
     (let state = getState stored (initialApprovalState clk);
          approvalRequest =
            \<lparr>toolName = tn, toolArgs = targs, reasoning = why,
             requestTimestamp = stampedAt clk, status = Pending,
             humanResponse = None, humanResponseTimestamp = None, sessionId = sid\<rparr>
      in (Some (state\<lparr>pendingApprovals := pendingApprovals state @ [approvalRequest],
                      lastUpdated := updatedAt clk\<rparr>),
          O_Created (sessionId approvalRequest)))"
| "orchestratorEntity clk stored (O_HandleApproval sid d response) =
     (let state = getState stored (initialApprovalState clk)
      in case List.find (\<lambda>a. sessionId a = sid \<and> status a = Pending) (pendingApprovals state) of
           Some approval \<Rightarrow>
             (Some (state\<lparr>pendingApprovals :=
                            updateFirst (\<lambda>a. sessionId a = sid \<and> status a = Pending)
                              (resolve clk d response) (pendingApprovals state),
                          lastUpdated := updatedAt clk\<rparr>),
              O_Resolved (resolve clk d response approval))
         | None \<Rightarrow> (stored, O_Failure ''Approval request not found''))"
| "orchestratorEntity clk stored O_GetPendingApprovals =
     (let state = getState stored (initialApprovalState clk)
      in (stored, O_Approvals (filter (\<lambda>a. status a = Pending) (pendingApprovals state))))"
| "orchestratorEntity clk stored O_GetState =
     (let state = getState stored (initialApprovalState clk)
      in (stored,
          O_Summary
            \<lparr>messageCount = length (chatHistory state),
             pendingApprovalCount = length (filter (\<lambda>a. status a = Pending) (pendingApprovals state)),
             summaryCreatedAt = createdAt state,
             summaryLastUpdated = lastUpdated state,
             recentMessages = slice_last5 (chatHistory state),
             summaryApprovals = pendingApprovals state\<rparr>))"
| "orchestratorEntity clk stored O_GetFullHistory =
     (let state = getState stored (initialApprovalState clk)
      in (stored, O_FullHistory (chatHistory state) (pendingApprovals state)))"
| "orchestratorEntity clk stored O_OtherOperation =
     (let state = getState stored (initialApprovalState clk)
      in (stored, O_WholeState state))"


section \<open>The chat orchestrator of the plain agent\<close>

text \<open>
  One orchestration is one turn: store the user message, run the chat activity, store the
  assistant message. What the activity does (it calls the hosted model) is an input of
  the model: \<open>Inr\<close> the text it returns, \<open>Inl\<close> the error it throws. The \<open>catch\<close> block
  rethrows, so a failed activity ends the turn after the user message was stored.
\<close>

record turn =
  turnMessage :: string
  activityResult :: "js_thrown + string"
  clkUser :: clock_reads
  clkAssistant :: clock_reads

definition chatOrchestrator ::
  "turn \<Rightarrow> ConversationState option \<Rightarrow> ConversationState option \<times> (js_thrown + string)" where
  "chatOrchestrator t stored =
     (let (stored1, ack1) = conversationEntity (clkUser t) stored (AddMessage User (turnMessage t))
      in case activityResult t of
           Inl error \<Rightarrow> (stored1, Inl error)
         | Inr response \<Rightarrow>
             (let (stored2, ack2) = conversationEntity (clkAssistant t) stored1 (AddMessage Assistant response)
              in (stored2, Inr response)))"

text \<open>Turns issued one after the other on one session (one entity).\<close>

fun runTurns :: "ConversationState option \<Rightarrow> turn list \<Rightarrow> ConversationState option" where
  "runTurns stored [] = stored"
| "runTurns stored (t # ts) = runTurns (fst (chatOrchestrator t stored)) ts"

text \<open>The messages a client reads with \<open>getFullHistory\<close>.\<close>

definition fullHistory :: "clock_reads \<Rightarrow> ConversationState option \<Rightarrow> ChatMessage list" where
  "fullHistory clk stored =
     (case snd (conversationEntity clk stored GetFullHistory) of
        FullHistory msgs \<Rightarrow> msgs
      | _ \<Rightarrow> [])"

definition completed :: "turn \<Rightarrow> bool" where
  "completed t = (case activityResult t of Inr response \<Rightarrow> True | Inl error \<Rightarrow> False)"

definition turnMessages :: "turn \<Rightarrow> ChatMessage list" where
  "turnMessages t =
     (case activityResult t of
        Inr response \<Rightarrow>
          [\<lparr>role = User, content = turnMessage t, timestamp = stampedAt (clkUser t)\<rparr>,
           \<lparr>role = Assistant, content = response, timestamp = stampedAt (clkAssistant t)\<rparr>]
      | Inl error \<Rightarrow>
          [\<lparr>role = User, content = turnMessage t, timestamp = stampedAt (clkUser t)\<rparr>])"


section \<open>The chat endpoint\<close>

text \<open>
  \<open>truthy\<close> is JavaScript's conversion to a boolean, \<open>orElse\<close> is \<open>a || b\<close>, and
  \<open>optionalProperty\<close> is \<open>body?.key\<close> for a key that no prototype defines (\<open>message\<close>,
  \<open>prompt\<close>, \<open>sessionId\<close>).
\<close>

fun truthy :: "jsval \<Rightarrow> bool" where
  "truthy JUndefined = False"
| "truthy JNull = False"
| "truthy (JBool b) = b"
| "truthy (JNum x) = (x \<noteq> 0)"
| "truthy (JStr s) = (s \<noteq> [])"
| "truthy (JArr vs) = True"
| "truthy (JObj kvs) = True"
| "truthy (JBuiltin path) = True"

definition orElse :: "jsval \<Rightarrow> jsval \<Rightarrow> jsval" where
  "orElse a b = (if truthy a then a else b)"

fun optionalProperty :: "jsval \<Rightarrow> string \<Rightarrow> jsval" where
  "optionalProperty (JObj kvs) key = property kvs key"
| "optionalProperty other key = JUndefined"

text \<open>
  Whether the conversion of a parsed JSON value to a string throws, as in a template
  literal \<open>`${sessionId}`\<close>. An object with an own property \<open>toString\<close> has no callable
  \<open>toString\<close> (no JSON value is a function) and the inherited \<open>valueOf\<close> returns the object
  itself, so the conversion throws a \<open>TypeError\<close>; every other object gives
  \<open>[object Object]\<close>. An array converts its elements, apart from \<open>null\<close>, and joins them.
\<close>

fun conversionThrows :: "jsval \<Rightarrow> bool" where
  "conversionThrows (JObj kvs) = (map_of kvs ''toString'' \<noteq> None)"
| "conversionThrows (JArr vs) = list_ex conversionThrows vs"
| "conversionThrows other = False"

text \<open>
  The handler of \<open>createChatEndpoint\<close> up to its call of \<open>client.startNew\<close> (the same
  lines in the plain agent and in \<open>durableWrapper.ts\<close>). \<open>request.json()\<close> gives the parsed
  body or throws; \<open>routeSessionId\<close> is \<open>request.params.sessionId\<close>. The result is the
  input handed to \<open>startNew\<close>, or the error that the \<open>catch\<close> block answers with status
  500. Two expressions of the log line before \<open>startNew\<close> can throw:
  \<open>message.substring(0, 50)\<close>, which exists on strings only, and after it the conversion
  of \<open>sessionId\<close> to a string.
\<close>

record orchestration_input =
  inputMessage :: string
  inputSessionId :: jsval

definition chatEndpointStart ::
  "js_thrown + jsval \<Rightarrow> string option \<Rightarrow> string \<Rightarrow> js_thrown + orchestration_input" where
  "chatEndpointStart requestJson routeSessionId guid =
     (case requestJson of
        Inl error \<Rightarrow> Inl error
      | Inr body \<Rightarrow>
          (let message = orElse (orElse (optionalProperty body ''message'') (optionalProperty body ''prompt''))
                           (JStr ''Hello'');
               sid = (if truthy (optionalProperty body ''sessionId'') then optionalProperty body ''sessionId''
                      else (case routeSessionId of
                              Some p \<Rightarrow> if p \<noteq> [] then JStr p else JStr (''session-'' @ guid)
                            | None \<Rightarrow> JStr (''session-'' @ guid)))
           in case message of
                JStr text \<Rightarrow>
                  (if conversionThrows sid
                   then Inl (ErrorObject ''TypeError'' ''Cannot convert object to primitive value'')
                   else Inr \<lparr>inputMessage = text, inputSessionId = sid\<rparr>)
              | other \<Rightarrow> Inl (ErrorObject ''TypeError'' ''message.substring is not a function'')))"

section \<open>The human-in-loop orchestrator (durableAgentOrchestrator.ts)\<close>

text \<open>
  A tool call of the model's answer. \<open>functionArguments\<close> is the outcome of
  \<open>JSON.parse(toolCall.function.arguments)\<close>: the parsed object, or the error thrown.
\<close>

record ToolCall =
  callId :: string
  functionName :: string
  functionArguments :: "js_thrown + js_object"

record AiMessage =
  aiContent :: "string option"
  tool_calls :: "ToolCall list option"

text \<open>\<open>content || fallback\<close> for a string that may be \<open>null\<close> or empty.\<close>

definition orDefault :: "string option \<Rightarrow> string \<Rightarrow> string" where
  "orDefault c fallback = (case c of Some s \<Rightarrow> if s = [] then fallback else s | None \<Rightarrow> fallback)"

text \<open>
  The decimal text of a whole number, as a template literal renders it. JavaScript prints
  these digits for the whole numbers it represents exactly, those of size up to
  \<open>2^53 - 1\<close>.
\<close>

fun showNat :: "nat \<Rightarrow> string" where
  "showNat n = (if n < 10 then [''0123456789'' ! n] else showNat (n div 10) @ [''0123456789'' ! (n mod 10)])"

declare showNat.simps [simp del]

definition showInt :: "int \<Rightarrow> string" where
  "showInt i = (if i < 0 then ''-'' @ showNat (nat (- i)) else showNat (nat i))"

text \<open>
  What the orchestration of one turn is given from outside. Times are milliseconds;
  \<open>startTime\<close> is \<open>context.df.currentUtcDateTime\<close> when the deadline is computed, and the
  timer of the \<open>k\<close>-th wait fires \<open>lateness k\<close> milliseconds after it is due. \<open>inbox k\<close> are
  the decisions that the approval endpoint signals to the entity during the \<open>k\<close>-th wait,
  each with the clock values its \<open>handleApproval\<close> reads; the signals of the wait in which
  the deadline passes arrive before the orchestrator's own timeout rejection.
  \<open>stringify\<close> is \<open>JSON.stringify\<close>. The timeout \<open>approvalTimeoutMinutes\<close> of the functions
  below is a whole number of minutes (the default is 30).
\<close>

record environment =
  humanApprovalTools :: "string list"
  toolRegistry :: ToolRegistry
  processMessage :: "js_thrown + AiMessage"
  stringify :: "js_object \<Rightarrow> string"
  startTime :: int
  lateness :: "nat \<Rightarrow> nat"
  inbox :: "nat \<Rightarrow> (clock_reads \<times> decision \<times> string option) list"
  clkUserMessage :: clock_reads
  clkRequest :: clock_reads
  clkPoll :: "nat \<Rightarrow> clock_reads"
  clkTimeout :: clock_reads
  clkAssistantMessage :: clock_reads

type_synonym session_store = "SessionApprovalRequest ApprovalConversationState option"

datatype event =
    EntityCall o_operation
  | ProcessMessageActivity
  | ExecuteToolActivity string js_object
  | TimerFired int

datatype orchestration_output =
    Completed string
  | ApprovalHandled string string string js_object

definition deliver ::
  "string \<Rightarrow> (clock_reads \<times> decision \<times> string option) list \<Rightarrow> session_store \<Rightarrow> session_store" where
  "deliver sid signals stored =
     foldl (\<lambda>st (clk, d, response). fst (orchestratorEntity clk st (O_HandleApproval sid d response)))
       stored signals"

text \<open>
  \<open>context.df.callEntity\<close>: the host runs the operation on the entity and gives the
  orchestrator the operation's result. The result of an operation is the value that the
  entity passes to \<open>context.df.return\<close>; the host does not look at what the entity function
  returns. The entity of this file never calls \<open>context.df.return\<close> (every case ends with a
  plain \<open>return\<close>), so each call yields \<open>undefined\<close>, here \<open>None\<close>.
\<close>

definition callEntity :: "clock_reads \<Rightarrow> session_store \<Rightarrow> o_operation \<Rightarrow> session_store \<times> o_reply option" where
  "callEntity clk stored request =
     (let (stored', returned) = orchestratorEntity clk stored request
      in (stored', None))"

text \<open>
  One round of the polling loop after its timer has fired: the entity has processed the
  signals of this wait, the orchestrator calls \<open>getState\<close> and looks in
  \<open>entityState?.pendingApprovals\<close> for a request of this session and tool whose status is no
  longer pending.
\<close>

definition pollOnce ::
  "environment \<Rightarrow> string \<Rightarrow> string \<Rightarrow> nat \<Rightarrow> session_store
     \<Rightarrow> SessionApprovalRequest option \<times> session_store" where
  "pollOnce env sid tn k stored =
     (let (stored', entityState) = callEntity (clkPoll env k) (deliver sid (inbox env k) stored) O_GetState
      in case entityState of
           Some (O_Summary s) \<Rightarrow>
             (List.find (\<lambda>a. sessionId a = sid \<and> toolName a = tn \<and> status a \<noteq> Pending) (summaryApprovals s),
              stored')
         | other \<Rightarrow> (None, stored'))"

text \<open>
  The loop \<open>while (!approvalReceived && currentUtcDateTime < timeoutDate)\<close>. The result is
  the decision found (\<open>approved\<close>, \<open>feedback\<close>) if any, the number of waits made, the entity's
  state and the events so far.
\<close>

function pollApproval ::
  "environment \<Rightarrow> string \<Rightarrow> string \<Rightarrow> int \<Rightarrow> int \<Rightarrow> nat \<Rightarrow> session_store \<Rightarrow> event list
     \<Rightarrow> (bool \<times> string) option \<times> nat \<times> session_store \<times> event list" where
  "pollApproval env sid tn timeoutDate now k stored trace =
     (if now < timeoutDate then
        (case pollOnce env sid tn k stored of
           (Some currentApproval, stored') \<Rightarrow>
             (Some (status currentApproval = Approved, orDefault (humanResponse currentApproval) []),
              Suc k, stored', trace @ [TimerFired (now + 5000), EntityCall O_GetState])
         | (None, stored') \<Rightarrow>
             pollApproval env sid tn timeoutDate (now + 5000 + int (lateness env k)) (Suc k) stored'
               (trace @ [TimerFired (now + 5000), EntityCall O_GetState]))
      else (None, k, stored, trace))"
  by pat_completeness auto
termination
  by (relation "measure (\<lambda>(env, sid, tn, timeoutDate, now, k, stored, trace). nat (timeoutDate - now))") auto

declare pollApproval.simps [simp del]

text \<open>The branch of a tool that requires approval, up to its \<open>return\<close>.\<close>

definition approvalGate ::
  "environment \<Rightarrow> string \<Rightarrow> int \<Rightarrow> string \<Rightarrow> js_object \<Rightarrow> session_store \<Rightarrow> event list
     \<Rightarrow> session_store \<times> event list \<times> (js_thrown + orchestration_output)" where
  "approvalGate env sid approvalTimeoutMinutes tn targs stored trace =
     (let request = O_AddApprovalRequest sid tn targs
                      (''AI wants to execute '' @ tn @ '' with: '' @ stringify env targs);
          (stored1, ack) = callEntity (clkRequest env) stored request;
          timeoutDate = startTime env + approvalTimeoutMinutes * 60 * 1000;
          (humanDecision, k, stored2, trace2) =
            pollApproval env sid tn timeoutDate (startTime env) 0 stored1 (trace @ [EntityCall request])
      in case humanDecision of
           Some (approved, feedback) \<Rightarrow>
             (if approved then
                (case executeTool (toolRegistry env) tn targs of
                   Inl error \<Rightarrow> (stored2, trace2 @ [ExecuteToolActivity tn targs], Inl error)
                 | Inr toolResult \<Rightarrow>
                     (stored2, trace2 @ [ExecuteToolActivity tn targs],
                      Inr (ApprovalHandled (''[HUMAN APPROVED] '' @ toolResult) sid tn targs)))
              else
                (stored2, trace2,
                 Inr (ApprovalHandled
                        (''[HUMAN REJECTED] '' @ (if feedback = [] then ''Operation was rejected'' else feedback))
                        sid tn targs)))
         | None \<Rightarrow>
             (let rejection = O_HandleApproval sid DecisionRejected
                                (Some (''Timeout after '' @ showInt approvalTimeoutMinutes @ '' minutes''));
                  (stored3, ack3) = callEntity (clkTimeout env) (deliver sid (inbox env k) stored2) rejection
              in (stored3, trace2 @ [EntityCall rejection],
                  Inr (ApprovalHandled
                         (''[TIMEOUT] Request timed out after '' @ showInt approvalTimeoutMinutes @ '' minutes'')
                         sid tn targs))))"

text \<open>
  The loop over the requested tool calls. It ends in one of three ways: all calls were
  handled and the loop leaves the final response (\<open>LoopDone\<close>), the \<open>return\<close> inside the
  approval branch ends the orchestration (\<open>LoopReturned\<close>), or something threw.
\<close>

datatype loop_result = LoopDone string | LoopReturned orchestration_output | LoopThrew js_thrown

fun processToolCalls ::
  "environment \<Rightarrow> string \<Rightarrow> int \<Rightarrow> ToolCall list \<Rightarrow> string \<Rightarrow> session_store \<Rightarrow> event list
     \<Rightarrow> session_store \<times> event list \<times> loop_result" where
  "processToolCalls env sid approvalTimeoutMinutes [] finalResponse stored trace =
     (stored, trace, LoopDone finalResponse)"
| "processToolCalls env sid approvalTimeoutMinutes (toolCall # rest) finalResponse stored trace =
     (case functionArguments toolCall of
        Inl error \<Rightarrow> (stored, trace, LoopThrew error)
      | Inr targs \<Rightarrow>
          (if functionName toolCall \<in> set (humanApprovalTools env) then
             (case approvalGate env sid approvalTimeoutMinutes (functionName toolCall) targs stored trace of
                (stored', trace', Inl error) \<Rightarrow> (stored', trace', LoopThrew error)
              | (stored', trace', Inr output) \<Rightarrow> (stored', trace', LoopReturned output))
           else
             (case executeTool (toolRegistry env) (functionName toolCall) targs of
                Inl error \<Rightarrow>
                  (stored, trace @ [ExecuteToolActivity (functionName toolCall) targs], LoopThrew error)
              | Inr toolResult \<Rightarrow>
                  processToolCalls env sid approvalTimeoutMinutes rest toolResult stored
                    (trace @ [ExecuteToolActivity (functionName toolCall) targs]))))"

definition humanInLoopOrchestrator ::
  "environment \<Rightarrow> string \<Rightarrow> string \<Rightarrow> int \<Rightarrow> session_store
     \<Rightarrow> session_store \<times> event list \<times> (js_thrown + orchestration_output)" where
  "humanInLoopOrchestrator env message sid approvalTimeoutMinutes stored =
     (let (stored1, ack1) = callEntity (clkUserMessage env) stored (O_AddMessage User message);
          trace1 = [EntityCall (O_AddMessage User message), ProcessMessageActivity]
      in case processMessage env of
           Inl error \<Rightarrow> (stored1, trace1, Inl error)
         | Inr response \<Rightarrow>
             (case processToolCalls env sid approvalTimeoutMinutes
                     (case tool_calls response of None \<Rightarrow> [] | Some calls \<Rightarrow> calls)
                     (orDefault (aiContent response) ''No response generated'') stored1 trace1 of
                (stored2, trace2, LoopThrew error) \<Rightarrow> (stored2, trace2, Inl error)
              | (stored2, trace2, LoopReturned output) \<Rightarrow> (stored2, trace2, Inr output)
              | (stored2, trace2, LoopDone finalResponse) \<Rightarrow>
                  (let (stored3, ack3) = callEntity (clkAssistantMessage env) stored2
                                           (O_AddMessage Assistant finalResponse)
                   in (stored3, trace2 @ [EntityCall (O_AddMessage Assistant finalResponse)],
                       Inr (Completed finalResponse)))))"

text \<open>The tools whose executor ran, in order, and the approval requests created.\<close>

definition executedTools :: "event list \<Rightarrow> string list" where
  "executedTools trace = concat (map (\<lambda>e. case e of ExecuteToolActivity tn targs \<Rightarrow> [tn] | other \<Rightarrow> []) trace)"

definition requestedApprovals :: "event list \<Rightarrow> string list" where
  "requestedApprovals trace =
     concat (map (\<lambda>e. case e of EntityCall (O_AddApprovalRequest sid tn targs why) \<Rightarrow> [tn] | other \<Rightarrow> []) trace)"


section \<open>Auxiliary notions and example data\<close>

text \<open>The position of the first element that satisfies a predicate (the length if none does).\<close>

definition firstIndex :: "('a \<Rightarrow> bool) \<Rightarrow> 'a list \<Rightarrow> nat" where
  "firstIndex P xs = length (takeWhile (\<lambda>x. \<not> P x) xs)"

text \<open>The number of pending requests that a stored state holds for a session.\<close>

definition pendingCount :: "string \<Rightarrow> session_store \<Rightarrow> nat" where
  "pendingCount sid stored =
     (case stored of
        None \<Rightarrow> 0
      | Some state \<Rightarrow> length (filter (\<lambda>a. sessionId a = sid \<and> status a = Pending) (pendingApprovals state)))"

definition clockA :: clock_reads where
  "clockA = \<lparr>initCreatedAt = ''2025-01-01T10:00:00.000Z'', initLastUpdated = ''2025-01-01T10:00:00.000Z'',
             stampedAt = ''2025-01-01T10:00:00.001Z'', updatedAt = ''2025-01-01T10:00:00.002Z''\<rparr>"

definition clockB :: clock_reads where
  "clockB = \<lparr>initCreatedAt = ''2025-01-01T11:00:00.000Z'', initLastUpdated = ''2025-01-01T11:00:00.000Z'',
             stampedAt = ''2025-01-01T11:00:00.001Z'', updatedAt = ''2025-01-01T11:00:00.002Z''\<rparr>"

definition paymentArgs :: js_object where
  "paymentArgs = [(''fromAccount'', JStr ''A''), (''toAccount'', JStr ''B''), (''amount'', JNum 100)]"

definition pendingPayment :: HumanApprovalRequest where
  "pendingPayment =
     \<lparr>toolName = ''makePayment'', toolArgs = paymentArgs, reasoning = ''pay'',
      requestTimestamp = ''2025-01-01T10:00:00.001Z'', status = Pending,
      humanResponse = None, humanResponseTimestamp = None, id' = ''guid-1''\<rparr>"

definition oneRequestState :: "HumanApprovalRequest ApprovalConversationState" where
  "oneRequestState =
     \<lparr>chatHistory = [], createdAt = ''2025-01-01T10:00:00.000Z'', lastUpdated = ''2025-01-01T10:00:00.002Z'',
      pendingApprovals = [pendingPayment]\<rparr>"

definition approvedPayment :: HumanApprovalRequest where
  "approvedPayment = pendingPayment\<lparr>status := Approved, humanResponse := Some ''ok'',
                                  humanResponseTimestamp := Some ''2025-01-01T10:30:00.000Z''\<rparr>"

definition decidedState :: "HumanApprovalRequest ApprovalConversationState" where
  "decidedState = oneRequestState\<lparr>pendingApprovals := [approvedPayment]\<rparr>"

definition sessionRequest :: "string \<Rightarrow> approval_status \<Rightarrow> SessionApprovalRequest" where
  "sessionRequest tn st =
     \<lparr>toolName = tn, toolArgs = [], reasoning = ''AI wants to execute '' @ tn,
      requestTimestamp = ''2025-01-01T09:00:00.000Z'', status = st,
      humanResponse = (if st = Pending then None else Some ''earlier''),
      humanResponseTimestamp = (if st = Pending then None else Some ''2025-01-01T09:30:00.000Z''),
      sessionId = ''s1''\<rparr>"

definition threeRequestState :: "SessionApprovalRequest ApprovalConversationState" where
  "threeRequestState =
     \<lparr>chatHistory = [\<lparr>role = User, content = ''delete the file'', timestamp = ''2025-01-01T09:00:00.000Z''\<rparr>],
      createdAt = ''2025-01-01T09:00:00.000Z'', lastUpdated = ''2025-01-01T09:40:00.000Z'',
      pendingApprovals = [sessionRequest ''makePayment'' Approved, sessionRequest ''deleteFile'' Pending,
                          sessionRequest ''sendEmail'' Pending]\<rparr>"

definition turnOne :: turn where
  "turnOne = \<lparr>turnMessage = ''What is 9 squared?'', activityResult = Inr ''The square of 9 is 81'',
              clkUser = clockA, clkAssistant = clockA\<rparr>"

definition turnTwo :: turn where
  "turnTwo = \<lparr>turnMessage = ''Thanks'', activityResult = Inr ''You are welcome'',
              clkUser = clockB, clkAssistant = clockB\<rparr>"


section \<open>The human-in-loop wrapper (durableWrapper.ts)\<close>

text \<open>
  The wrapper keeps its approval requests in the in-memory \<open>Map\<close> \<open>pendingApprovals\<close> of
  the agent object. The stored object starts with six fields;
  \<open>processApprovalDecision\<close> adds the others.
\<close>

record StoredApproval =
  storedToolName :: string
  storedToolArgs :: js_object
  storedReasoning :: string
  storedSessionId :: string
  storedTimestamp :: timestamp
  storedStatus :: approval_status
  feedback :: "string option"
  decidedAt :: "timestamp option"
  executionResult :: "string option"
  executedAt :: "timestamp option"
  executionError :: "string option"

type_synonym approval_map = "(string \<times> StoredApproval) list"

record approval_result =
  resultDecision :: decision
  resultHumanResponse :: "string option"
  instanceId :: "string option"

text \<open>\<open>dateNow\<close> is the value of \<open>Date.now()\<close>, \<open>isoNow\<close> that of \<open>new Date().toISOString()\<close>.\<close>

definition requestHumanApproval ::
  "int \<Rightarrow> timestamp \<Rightarrow> string \<Rightarrow> string \<Rightarrow> js_object \<Rightarrow> string \<Rightarrow> approval_map
     \<Rightarrow> approval_result \<times> approval_map" where
  "requestHumanApproval dateNow isoNow sid tn targs why pending =
     (let approvalId = ''approval-'' @ sid @ ''-'' @ tn @ ''-'' @ showInt dateNow
      in (\<lparr>resultDecision = DecisionApproved,
           resultHumanResponse =
             Some (''Approval request '' @ approvalId @ '' created for '' @ tn @ ''. Waiting for human decision.''),
           instanceId = Some approvalId\<rparr>,
          map_set approvalId
            \<lparr>storedToolName = tn, storedToolArgs = targs, storedReasoning = why,
             storedSessionId = sid, storedTimestamp = isoNow, storedStatus = Pending,
             feedback = None, decidedAt = None, executionResult = None, executedAt = None,
             executionError = None\<rparr>
            pending))"

record tool_result =
  tool_call_id :: string
  tool_content :: string

text \<open>
  What one call of \<open>executeOpenAIChatWithHumanApproval\<close> is given from outside: the two
  answers of the model (the second depends on the tool results) and the clock values of
  the \<open>k\<close>-th tool call of the turn.
\<close>

record wrapper_environment =
  approvalTools :: "string list"
  wrapperRegistry :: ToolRegistry
  firstCompletion :: "js_thrown + AiMessage"
  finalCompletion :: "tool_result list \<Rightarrow> js_thrown + AiMessage"
  dateNowAt :: "nat \<Rightarrow> int"
  isoNowAt :: "nat \<Rightarrow> timestamp"

text \<open>
  The loop over the tool calls. The result holds the map of stored approvals, the calls of
  \<open>executeTool\<close> made so far (tool name and arguments, in order) and the tool results, or
  the error that leaves the loop. The \<open>catch\<close> block of a tool that needs no approval
  converts the caught value in a template literal; what that conversion throws leaves the
  loop.
\<close>

fun wrapperToolCalls ::
  "wrapper_environment \<Rightarrow> string \<Rightarrow> string option \<Rightarrow> ToolCall list \<Rightarrow> nat \<Rightarrow> approval_map
     \<Rightarrow> tool_result list \<Rightarrow> (string \<times> js_object) list
     \<Rightarrow> approval_map \<times> (string \<times> js_object) list \<times> (js_thrown + tool_result list)" where
  "wrapperToolCalls env sid c [] k pending toolResults invoked = (pending, invoked, Inr toolResults)"
| "wrapperToolCalls env sid c (toolCall # rest) k pending toolResults invoked =
     (case functionArguments toolCall of
        Inl error \<Rightarrow> (pending, invoked, Inl error)
      | Inr targs \<Rightarrow>
          (if functionName toolCall \<in> set (approvalTools env) then
             (case requestHumanApproval (dateNowAt env k) (isoNowAt env k) sid (functionName toolCall) targs
                     (orDefault c (''The AI wants to execute '' @ functionName toolCall
                                    @ '' with the provided arguments.''))
                     pending of
                (approvalResult, pending') \<Rightarrow>
                  (if resultDecision approvalResult = DecisionApproved then
                     (case executeTool (wrapperRegistry env) (functionName toolCall) targs of
                        Inl error \<Rightarrow> (pending', invoked @ [(functionName toolCall, targs)], Inl error)
                      | Inr toolResult \<Rightarrow>
                          wrapperToolCalls env sid c rest (Suc k) pending'
                            (toolResults @ [\<lparr>tool_call_id = callId toolCall,
                                             tool_content = ''[HUMAN APPROVED] '' @ toolResult\<rparr>])
                            (invoked @ [(functionName toolCall, targs)]))
                   else
                     wrapperToolCalls env sid c rest (Suc k) pending'
                       (toolResults @ [\<lparr>tool_call_id = callId toolCall,
                                        tool_content =
                                          ''[HUMAN REJECTED] Tool execution was rejected by human. Reason: ''
                                          @ orDefault (resultHumanResponse approvalResult) ''No reason provided''\<rparr>])
                       invoked))
           else
             (case executeTool (wrapperRegistry env) (functionName toolCall) targs of
                Inr toolResult \<Rightarrow>
                  wrapperToolCalls env sid c rest (Suc k) pending
                    (toolResults @ [\<lparr>tool_call_id = callId toolCall, tool_content = toolResult\<rparr>])
                    (invoked @ [(functionName toolCall, targs)])
              | Inl error \<Rightarrow>
                  (case templateString error of
                     Inr text \<Rightarrow>
                       wrapperToolCalls env sid c rest (Suc k) pending
                         (toolResults @ [\<lparr>tool_call_id = callId toolCall,
                                          tool_content = ''Error executing '' @ functionName toolCall @ '': ''
                                                         @ text\<rparr>])
                         (invoked @ [(functionName toolCall, targs)])
                   | Inl conversionError \<Rightarrow>
                       (pending, invoked @ [(functionName toolCall, targs)], Inl conversionError)))))"

text \<open>
  The outer \<open>catch\<close> block: \<open>throw new Error(`OpenAI processing failed: ${error}`)\<close>, or
  what the conversion of the caught value throws.
\<close>

definition processingFailed :: "js_thrown \<Rightarrow> js_thrown" where
  "processingFailed error =
     (case templateString error of
        Inr text \<Rightarrow> ErrorObject ''Error'' (''OpenAI processing failed: '' @ text)
      | Inl conversionError \<Rightarrow> conversionError)"

definition executeOpenAIChatWithHumanApproval ::
  "wrapper_environment \<Rightarrow> string \<Rightarrow> approval_map
     \<Rightarrow> approval_map \<times> (string \<times> js_object) list \<times> (js_thrown + string)" where
  "executeOpenAIChatWithHumanApproval env sid pending =
     (case firstCompletion env of
        Inl error \<Rightarrow> (pending, [], Inl (processingFailed error))
      | Inr completion \<Rightarrow>
          (case tool_calls completion of
             Some (toolCall # rest) \<Rightarrow>
               (case wrapperToolCalls env sid (aiContent completion) (toolCall # rest) 0 pending [] [] of
                  (pending', invoked, Inl error) \<Rightarrow> (pending', invoked, Inl (processingFailed error))
                | (pending', invoked, Inr toolResults) \<Rightarrow>
                    (case finalCompletion env toolResults of
                       Inl error \<Rightarrow> (pending', invoked, Inl (processingFailed error))
                     | Inr finalResponse \<Rightarrow>
                         (pending', invoked, Inr (orDefault (aiContent finalResponse) ''No response generated''))))
           | other \<Rightarrow> (pending, [], Inr (orDefault (aiContent completion) ''No response generated''))))"

text \<open>
  \<open>processApprovalDecision\<close>, which the approval endpoint of the sample calls with the
  human's decision. The result holds the map, the calls of \<open>executeTool\<close> it made and the
  boolean it returns, or the value it rejects with. The stored object is changed in
  place, so the map shows the decision also when \<open>String(error)\<close> throws in the \<open>catch\<close>
  block.
\<close>

definition processApprovalDecision ::
  "ToolRegistry \<Rightarrow> timestamp \<Rightarrow> timestamp \<Rightarrow> string \<Rightarrow> bool \<Rightarrow> string option \<Rightarrow> approval_map
     \<Rightarrow> approval_map \<times> (string \<times> js_object) list \<times> (js_thrown + bool)" where
  "processApprovalDecision tools decidedNow executedNow approvalId approved fb pending =
     (case map_of pending approvalId of
        None \<Rightarrow> (pending, [], Inr False)
      | Some approval \<Rightarrow>
          (let decided = approval\<lparr>storedStatus := (if approved then Approved else Rejected),
                                  feedback := fb, decidedAt := Some decidedNow\<rparr>
           in if approved then
                (case executeTool tools (storedToolName decided) (storedToolArgs decided) of
                   Inr toolResult \<Rightarrow>
                     (map_set approvalId
                        (decided\<lparr>executionResult := Some toolResult, executedAt := Some executedNow\<rparr>) pending,
                      [(storedToolName decided, storedToolArgs decided)], Inr True)
                 | Inl error \<Rightarrow>
                     (case String_of error of
                        Inr text \<Rightarrow>
                          (map_set approvalId (decided\<lparr>executionError := Some text\<rparr>) pending,
                           [(storedToolName decided, storedToolArgs decided)], Inr True)
                      | Inl conversionError \<Rightarrow>
                          (map_set approvalId decided pending,
                           [(storedToolName decided, storedToolArgs decided)], Inl conversionError)))
              else (map_set approvalId decided pending, [], Inr True)))"

section \<open>The financial agent of the sample\<close>

definition makePaymentTool :: ToolDefinition where
  "makePaymentTool =
     \<lparr>name = ''makePayment'',
      description = ''Transfer money from one account to another (REQUIRES HUMAN APPROVAL)'',
      parameters =
        [(''fromAccount'', \<lparr>param_type = TString, param_description = ''Source account number'',
                            required = Some True\<rparr>),
         (''toAccount'', \<lparr>param_type = TString, param_description = ''Destination account number'',
                          required = Some True\<rparr>),
         (''amount'', \<lparr>param_type = TNumber, param_description = ''Amount to transfer in dollars'',
                       required = Some True\<rparr>)],
      handler = (\<lambda>vs. Inr ''Payment completed'')\<rparr>"

definition checkAccountBalanceTool :: ToolDefinition where
  "checkAccountBalanceTool =
     \<lparr>name = ''checkAccountBalance'',
      description = ''Check account balance for a given account number'',
      parameters =
        [(''accountNumber'', \<lparr>param_type = TString, param_description = ''The account number to check'',
                              required = Some True\<rparr>)],
      handler = (\<lambda>vs. Inr ''Balance: 42'')\<rparr>"

definition financialToolRegistry :: ToolRegistry where
  "financialToolRegistry = registerAll [checkAccountBalanceTool, makePaymentTool]"

definition paymentCall :: ToolCall where
  "paymentCall = \<lparr>callId = ''call-1'', functionName = ''makePayment'', functionArguments = Inr paymentArgs\<rparr>"

definition balanceCall :: ToolCall where
  "balanceCall = \<lparr>callId = ''call-2'', functionName = ''checkAccountBalance'',
                  functionArguments = Inr [(''accountNumber'', JStr ''A'')]\<rparr>"

text \<open>
  An orchestration in which the model requests the given tool calls, \<open>makePayment\<close>
  requires approval, and nobody signals a decision while it runs.
\<close>

definition quietEnvironment :: "ToolCall list \<Rightarrow> environment" where
  "quietEnvironment calls =
     \<lparr>humanApprovalTools = [''makePayment''],
      toolRegistry = financialToolRegistry,
      processMessage = Inr \<lparr>aiContent = None, tool_calls = Some calls\<rparr>,
      stringify = (\<lambda>targs. ''{...}''),
      startTime = 0,
      lateness = (\<lambda>k. 0),
      inbox = (\<lambda>k. []),
      clkUserMessage = clockA, clkRequest = clockA, clkPoll = (\<lambda>k. clockA),
      clkTimeout = clockB, clkAssistantMessage = clockB\<rparr>"

text \<open>The same, but the human approves during the first wait.\<close>

definition clockEarly :: clock_reads where
  "clockEarly = \<lparr>initCreatedAt = ''2025-01-01T09:00:00.000Z'', initLastUpdated = ''2025-01-01T09:00:00.000Z'',
                 stampedAt = ''2025-01-01T09:00:00.001Z'', updatedAt = ''2025-01-01T09:00:00.002Z''\<rparr>"

definition clockSignal :: clock_reads where
  "clockSignal = \<lparr>initCreatedAt = ''2025-01-01T09:00:03.000Z'', initLastUpdated = ''2025-01-01T09:00:03.000Z'',
                  stampedAt = ''2025-01-01T09:00:03.001Z'', updatedAt = ''2025-01-01T09:00:03.002Z''\<rparr>"

definition approvingEnvironment :: "ToolCall list \<Rightarrow> environment" where
  "approvingEnvironment calls =
     (quietEnvironment calls)
       \<lparr>inbox := (\<lambda>k. if k = 0 then [(clockSignal, DecisionApproved, Some ''go'')] else []),
        clkUserMessage := clockEarly, clkRequest := clockEarly, clkPoll := (\<lambda>k. clockEarly)\<rparr>"

definition wrapperEnvironment :: wrapper_environment where
  "wrapperEnvironment =
     \<lparr>approvalTools = [''makePayment''],
      wrapperRegistry = financialToolRegistry,
      firstCompletion = Inr \<lparr>aiContent = None, tool_calls = Some [paymentCall]\<rparr>,
      finalCompletion = (\<lambda>toolResults. Inr \<lparr>aiContent = Some ''The payment was made.'', tool_calls = None\<rparr>),
      dateNowAt = (\<lambda>k. 1735725600000),
      isoNowAt = (\<lambda>k. ''2025-01-01T10:00:00.000Z'')\<rparr>"


section \<open>Properties of the tool registry\<close>

lemma map_set_keys:
  "map fst (map_set k v es) = (if k \<in> set (map fst es) then map fst es else map fst es @ [k])"
  by (induction es) auto

lemma map_of_map_set: "map_of (map_set k v es) = (map_of es)(k \<mapsto> v)"
  by (induction es) (auto simp: fun_eq_iff)

lemma map_set_new: "k \<notin> set (map fst es) \<Longrightarrow> map_set k v es = es @ [(k, v)]"
  by (induction es) auto

lemma set_map_set: "set (map_set k v es) \<subseteq> insert (k, v) (set es)"
  by (induction es) auto

lemma foldl_map_set_distinct:
  "distinct (map fst acc @ map fst ps) \<Longrightarrow>
   foldl (\<lambda>props (nm, param). map_set nm (f param) props) acc ps
     = acc @ map (\<lambda>(nm, param). (nm, f param)) ps"
proof (induction ps arbitrary: acc)
  case Nil
  then show ?case by simp
next
  case (Cons p ps)
  obtain nm param where p: "p = (nm, param)" by (cases p)
  from Cons.prems have new: "nm \<notin> set (map fst acc)" by (auto simp: p)
  from Cons.prems have "distinct (map fst (acc @ [(nm, f param)]) @ map fst ps)" by (auto simp: p)
  from Cons.IH[OF this] show ?case by (simp add: p map_set_new[OF new])
qed

lemma registerAll_snoc: "registerAll (ds @ [d]) = registerTool (registerAll ds) d"
  by (simp add: registerAll_def)

lemma names_registerAll: "map fst (registerAll ds) = rev (remdups (rev (map name ds)))"
proof (induction ds rule: rev_induct)
  case Nil
  then show ?case by (simp add: registerAll_def)
next
  case (snoc d ds)
  have "set (map fst (registerAll ds)) = set (map name ds)" by (simp add: snoc.IH)
  then show ?case
    by (simp add: registerAll_snoc registerTool_def map_set_keys snoc.IH)
qed

lemma map_of_registerAll: "map_of (registerAll ds) n = List.find (\<lambda>d. name d = n) (rev ds)"
proof (induction ds rule: rev_induct)
  case Nil
  then show ?case by (simp add: registerAll_def)
next
  case (snoc d ds)
  then show ?case
    by (simp add: registerAll_snoc registerTool_def map_of_map_set)
qed

lemma entries_registerAll: "(n, d) \<in> set (registerAll ds) \<Longrightarrow> name d = n \<and> d \<in> set ds"
proof (induction ds arbitrary: n d rule: rev_induct)
  case Nil
  then show ?case by (simp add: registerAll_def)
next
  case (snoc x xs)
  have "set (registerAll (xs @ [x])) \<subseteq> insert (name x, x) (set (registerAll xs))"
    by (simp add: registerAll_snoc registerTool_def set_map_set)
  with snoc.prems have "(n, d) \<in> set (registerAll xs) \<or> (n, d) = (name x, x)" by auto
  with snoc.IH show ?case by auto
qed

lemma required_filter:
  "map fst (filter (\<lambda>(nm, param). required param \<noteq> Some False) ps) =
   [nm. (nm, param) \<leftarrow> ps, required param \<noteq> Some False]"
  by (induction ps) auto


lemma set_Object_entries: "set (Object_entries obj) = set obj"
  by (auto simp: Object_entries_def)

lemma distinct_Object_entries:
  assumes "distinct (map fst obj)"
  shows "distinct (map fst (Object_entries obj))"
proof -
  from assms have d: "distinct obj" and i: "inj_on fst (set obj)"
    by (simp_all add: distinct_map)
  have "distinct (Object_entries obj)"
    using d by (auto simp: Object_entries_def)
  moreover have "inj_on fst (set (Object_entries obj))"
    using i by (simp add: set_Object_entries)
  ultimately show ?thesis by (simp add: distinct_map)
qed

lemma Object_entries_declared:
  assumes "\<forall>p \<in> set (map fst obj). \<not> isArrayIndex p"
  shows "Object_entries obj = obj"
proof -
  have "filter (\<lambda>e. isArrayIndex (fst e)) obj = []"
    using assms by (simp add: filter_empty_conv)
  moreover have "filter (\<lambda>e. \<not> isArrayIndex (fst e)) obj = obj"
    using assms by (simp add: filter_id_conv)
  ultimately show ?thesis by (simp add: Object_entries_def)
qed

lemma foldl_assignProperty:
  assumes "distinct (map fst ps)" and "''__proto__'' \<notin> set (map fst ps)"
  shows "foldl (\<lambda>props (nm, param). assignProperty props nm (f param)) [] ps
           = map (\<lambda>(nm, param). (nm, f param)) ps"
proof -
  have "foldl (\<lambda>props (nm, param). assignProperty props nm (f param)) acc ps
          = foldl (\<lambda>props (nm, param). map_set nm (f param) props) acc ps" for acc
    using assms(2)
  proof (induction ps arbitrary: acc)
    case Nil
    then show ?case by simp
  next
    case (Cons p ps)
    then show ?case by (cases p) (auto simp: assignProperty_def)
  qed
  with foldl_map_set_distinct[of "[]" ps f] assms(1) show ?thesis by simp
qed

lemma schema_entry:
  assumes "distinct (map fst (parameters tool))" and "''__proto__'' \<notin> set (map fst (parameters tool))"
  shows "getOpenAISchema [(k, tool)] = [describeTool tool]"
proof -
  have d: "distinct (map fst (Object_entries (parameters tool)))"
    using assms(1) by (rule distinct_Object_entries)
  have n: "''__proto__'' \<notin> set (map fst (Object_entries (parameters tool)))"
    using assms(2) by (simp add: set_Object_entries)
  show ?thesis
    using foldl_assignProperty[OF d n,
      of "\<lambda>param. \<lparr>prop_type = param_type param, prop_description = param_description param\<rparr>"]
    by (simp add: getOpenAISchema_def describeTool_def required_filter)
qed

lemma schema_map:
  assumes "\<forall>d \<in> set (map snd tools).
             distinct (map fst (parameters d)) \<and> ''__proto__'' \<notin> set (map fst (parameters d))"
  shows "getOpenAISchema tools = map (describeTool \<circ> snd) tools"
proof -
  have "getOpenAISchema tools = concat (map (\<lambda>e. getOpenAISchema [e]) tools)"
    by (induction tools) (simp_all add: getOpenAISchema_def)
  also have "\<dots> = concat (map (\<lambda>e. [describeTool (snd e)]) tools)"
    using assms by (intro arg_cong[where f=concat] map_cong) (auto simp: schema_entry)
  also have "\<dots> = map (describeTool \<circ> snd) tools"
    by (induction tools) simp_all
  finally show ?thesis .
qed

text \<open>
  C2, amended. On a registered tool, when the handler throws or rejects with a value \<open>e\<close>
  that has a string conversion (every \<open>Error\<close> object, every value given by its text),
  \<open>executeTool\<close> does not raise: the result is the text
  \<open>Error executing <name>: <e as a string>\<close>; when the handler resolves, the result is the
  handler's own text. \<open>executeTool\<close> raises in two cases only: the name is not a key of the
  registry, and then it raises the not-found error; or the handler failed with a value
  whose conversion in the \<open>catch\<close> block throws, and then it raises what the conversion
  throws.
\<close>

theorem executeTool_failure_containment:
  "(map_of tools tname = Some tool \<longrightarrow>
      (\<forall>e text. handler tool (argArray tool args) = Inl e \<and> templateString e = Inr text \<longrightarrow>
         executeTool tools tname args = Inr (''Error executing '' @ tname @ '': '' @ text))
    \<and> (\<forall>e err. handler tool (argArray tool args) = Inl e \<and> templateString e = Inl err \<longrightarrow>
         executeTool tools tname args = Inl err)
    \<and> (\<forall>r. handler tool (argArray tool args) = Inr r \<longrightarrow> executeTool tools tname args = Inr r))
   \<and> ((\<exists>err. executeTool tools tname args = Inl err) \<longleftrightarrow>
        (map_of tools tname = None
         \<or> (\<exists>tool' e err. map_of tools tname = Some tool' \<and> handler tool' (argArray tool' args) = Inl e
                           \<and> templateString e = Inl err)))
   \<and> (map_of tools tname = None \<longrightarrow> executeTool tools tname args = Inl (toolNotFound tname))
   \<and> (\<forall>nm msg. \<exists>text. templateString (ErrorObject nm msg) = Inr text)
   \<and> (\<forall>s. templateString (Thrown s) = Inr s)"
  by (auto simp: executeTool_def split: option.splits sum.splits)

theorem executeTool_failure_containment_witness:
  "map_of (registerAll [echoTool, failingTool]) ''explode'' = Some failingTool
   \<and> handler failingTool (argArray failingTool []) = Inl (ErrorObject ''Error'' ''boom'')
   \<and> templateString (ErrorObject ''Error'' ''boom'') = Inr ''Error: boom''
   \<and> executeTool (registerAll [echoTool, failingTool]) ''explode'' []
       = Inr ''Error executing explode: Error: boom''
   \<and> map_of (registerAll [echoTool, failingTool]) ''missing'' = None
   \<and> executeTool (registerAll [echoTool, failingTool]) ''missing'' [] = Inl (toolNotFound ''missing'')"
proof -
  let ?tools = "registerAll [echoTool, failingTool]"
  have reg: "map_of ?tools ''explode'' = Some failingTool"
    by (simp add: registerAll_def registerTool_def echoTool_def failingTool_def)
  have thr: "handler failingTool (argArray failingTool []) = Inl (ErrorObject ''Error'' ''boom'')"
    by (simp add: failingTool_def)
  have conv: "templateString (ErrorObject ''Error'' ''boom'') = Inr ''Error: boom''"
    by simp
  have absent: "map_of ?tools ''missing'' = None"
    by (simp add: registerAll_def registerTool_def echoTool_def failingTool_def)
  from executeTool_failure_containment[of ?tools "''explode''" failingTool "[]"] reg thr conv
  have "executeTool ?tools ''explode'' [] = Inr (''Error executing '' @ ''explode'' @ '': '' @ ''Error: boom'')"
    by blast
  moreover from executeTool_failure_containment[of ?tools "''missing''" failingTool "[]"] absent
  have "executeTool ?tools ''missing'' [] = Inl (toolNotFound ''missing'')"
    by blast
  ultimately show ?thesis using reg thr conv absent by simp
qed

text \<open>
  C2 as stated fails: \<open>symbolTool\<close> is registered and its handler rejects with a symbol;
  the template literal of the \<open>catch\<close> block throws on the symbol, and \<open>executeTool\<close> raises
  that \<open>TypeError\<close> although the name is a key of the registry.
\<close>

theorem executeTool_raises_for_registered_tool:
  "map_of (registerAll [failingTool, symbolTool]) ''signal'' = Some symbolTool
   \<and> handler symbolTool (argArray symbolTool []) = Inl (ThrownSymbol ''boom'')
   \<and> executeTool (registerAll [failingTool, symbolTool]) ''signal'' []
       = Inl (ErrorObject ''TypeError'' ''Cannot convert a Symbol value to a string'')"
proof -
  have reg: "map_of (registerAll [failingTool, symbolTool]) ''signal'' = Some symbolTool"
    by (simp add: registerAll_def registerTool_def failingTool_def symbolTool_def)
  have thr: "handler symbolTool (argArray symbolTool []) = Inl (ThrownSymbol ''boom'')"
    by (simp add: symbolTool_def)
  have "executeTool (registerAll [failingTool, symbolTool]) ''signal'' []
       = Inl (ErrorObject ''TypeError'' ''Cannot convert a Symbol value to a string'')"
    by (simp add: executeTool_def reg thr)
  with reg thr show ?thesis by simp
qed

text \<open>
  C3, amended. For a registered tool none of whose parameter names is an array index or
  the name of a member of \<open>Object.prototype\<close>, the handler is applied to one value per
  declared parameter, in declaration order; the value at a position is the argument stored
  under that parameter's name, or \<open>undefined\<close> when the argument object has no such key.
  The order of the keys of the argument object plays no role: two argument objects with
  the same entries give the same argument list and the same result. In particular a tool
  with parameters \<open>a, b\<close> called with \<open>{b: 2, a: 1}\<close> has its handler applied to \<open>(1, 2)\<close>.
\<close>

theorem executeTool_argument_binding:
  assumes "map_of tools tname = Some tool"
    and "\<forall>p \<in> set (map fst (parameters tool)). \<not> isArrayIndex p \<and> inherited p = None"
    and "distinct (map fst args)" and "distinct (map fst args')" and "set args' = set args"
  shows "length (argArray tool args) = length (parameters tool)
       \<and> (\<forall>i < length (parameters tool).
            argArray tool args ! i =
              (case map_of args (fst (parameters tool ! i)) of None \<Rightarrow> JUndefined | Some v \<Rightarrow> v))
       \<and> executeTool tools tname args =
            (case handler tool (argArray tool args) of
               Inr result \<Rightarrow> Inr result
             | Inl error \<Rightarrow>
                 (case templateString error of
                    Inr text \<Rightarrow> Inr (''Error executing '' @ tname @ '': '' @ text)
                  | Inl conversionError \<Rightarrow> Inl conversionError))
       \<and> argArray tool args' = argArray tool args
       \<and> executeTool tools tname args' = executeTool tools tname args
       \<and> (\<forall>h d pa pb.
            executeTool
              [(tname, \<lparr>name = tname, description = d,
                           parameters = [(''a'', pa), (''b'', pb)], handler = h\<rparr>)]
              tname [(''b'', JNum 2), (''a'', JNum 1)]
            = (case h [JNum 1, JNum 2] of
                 Inr result \<Rightarrow> Inr result
               | Inl error \<Rightarrow>
                   (case templateString error of
                      Inr text \<Rightarrow> Inr (''Error executing '' @ tname @ '': '' @ text)
                    | Inl conversionError \<Rightarrow> Inl conversionError)))"
proof -
  have keys: "Object_keys (parameters tool) = map fst (parameters tool)"
    using assms(2) by (simp add: Object_keys_def Object_entries_declared)
  have m: "map_of args' = map_of args"
    using assms(3-5) by (simp add: map_of_inject_set)
  have a: "argArray tool args' = argArray tool args"
    by (simp add: argArray_def property_def m)
  have e: "executeTool tools tname args' = executeTool tools tname args"
    using assms(1) by (simp add: executeTool_def a)
  have l: "length (argArray tool args) = length (parameters tool)"
    by (simp add: argArray_def keys)
  have n: "\<forall>i < length (parameters tool).
            argArray tool args ! i =
              (case map_of args (fst (parameters tool ! i)) of None \<Rightarrow> JUndefined | Some v \<Rightarrow> v)"
    using assms(2) by (simp add: argArray_def keys property_def split: option.splits)
  have x: "executeTool tools tname args =
            (case handler tool (argArray tool args) of
               Inr result \<Rightarrow> Inr result
             | Inl error \<Rightarrow>
                 (case templateString error of
                    Inr text \<Rightarrow> Inr (''Error executing '' @ tname @ '': '' @ text)
                  | Inl conversionError \<Rightarrow> Inl conversionError))"
    using assms(1) by (simp add: executeTool_def)
  have ab: "Object_keys [(''a'', pa), (''b'', pb)] = [''a'', ''b'']" for pa pb :: ToolParameter
    by (simp add: Object_keys_def Object_entries_def isArrayIndex_def digitValue_def)
  have p: "\<forall>h d pa pb.
            executeTool
              [(tname, \<lparr>name = tname, description = d,
                           parameters = [(''a'', pa), (''b'', pb)], handler = h\<rparr>)]
              tname [(''b'', JNum 2), (''a'', JNum 1)]
            = (case h [JNum 1, JNum 2] of
                 Inr result \<Rightarrow> Inr result
               | Inl error \<Rightarrow>
                   (case templateString error of
                      Inr text \<Rightarrow> Inr (''Error executing '' @ tname @ '': '' @ text)
                    | Inl conversionError \<Rightarrow> Inl conversionError))"
    by (simp add: executeTool_def argArray_def ab property_def)
  from l n x a e p show ?thesis by blast
qed

theorem executeTool_argument_binding_witness:
  "map_of (registerAll [echoTool]) ''echo'' = Some echoTool
   \<and> map fst (parameters echoTool) = [''a'', ''b'', ''c'']
   \<and> \<not> isArrayIndex ''a'' \<and> \<not> isArrayIndex ''b'' \<and> \<not> isArrayIndex ''c''
   \<and> inherited ''a'' = None \<and> inherited ''b'' = None \<and> inherited ''c'' = None
   \<and> distinct (map fst [(''b'', JNum 2), (''a'', JNum 1)])
   \<and> distinct (map fst [(''a'', JNum 1), (''b'', JNum 2)])
   \<and> set [(''a'', JNum 1), (''b'', JNum 2)] = set [(''b'', JNum 2), (''a'', JNum 1)]
   \<and> argArray echoTool [(''b'', JNum 2), (''a'', JNum 1)] = [JNum 1, JNum 2, JUndefined]
   \<and> executeTool (registerAll [echoTool]) ''echo'' [(''b'', JNum 2), (''a'', JNum 1)]
       = Inr ''received (1, 2, undefined)''
   \<and> executeTool (registerAll [echoTool]) ''echo'' [(''a'', JNum 1), (''b'', JNum 2)]
       = Inr ''received (1, 2, undefined)''"
proof -
  let ?tools = "registerAll [echoTool]"
  let ?args = "[(''b'', JNum 2), (''a'', JNum 1)]"
  let ?args' = "[(''a'', JNum 1), (''b'', JNum 2)]"
  have reg: "map_of ?tools ''echo'' = Some echoTool"
    by (simp add: registerAll_def registerTool_def echoTool_def)
  have names: "map fst (parameters echoTool) = [''a'', ''b'', ''c'']"
    by (simp add: echoTool_def)
  have plain: "\<not> isArrayIndex ''a''" "\<not> isArrayIndex ''b''" "\<not> isArrayIndex ''c''"
      "inherited ''a'' = None" "inherited ''b'' = None" "inherited ''c'' = None"
    by (simp_all add: isArrayIndex_def digitValue_def inherited_def objectPrototypeFunctions_def)
  have ok: "\<forall>p \<in> set (map fst (parameters echoTool)). \<not> isArrayIndex p \<and> inherited p = None"
    using plain by (simp add: names)
  have d: "distinct (map fst ?args)" and d': "distinct (map fst ?args')"
    by simp_all
  have s: "set ?args' = set ?args" by auto
  note b = executeTool_argument_binding[OF reg ok d d' s]
  from b have len: "length (argArray echoTool ?args) = 3"
    using names by (metis length_map length_Cons list.size(3) numeral_3_eq_3)
  from b have nth: "\<forall>i < 3. argArray echoTool ?args ! i
                      = (case map_of ?args ([''a'', ''b'', ''c''] ! i) of None \<Rightarrow> JUndefined | Some v \<Rightarrow> v)"
    using names by (metis (no_types, lifting) length_map length_Cons list.size(3) numeral_3_eq_3 nth_map)
  have arr: "argArray echoTool ?args = [JNum 1, JNum 2, JUndefined]"
    using len nth by (simp add: list_eq_iff_nth_eq numeral_3_eq_3 less_Suc_eq)
  have h: "handler echoTool [JNum 1, JNum 2, JUndefined] = Inr ''received (1, 2, undefined)''"
    by (simp add: echoTool_def)
  from b have "executeTool ?tools ''echo'' ?args = Inr ''received (1, 2, undefined)''"
    by (simp add: arr h)
  moreover from b have "executeTool ?tools ''echo'' ?args' = executeTool ?tools ''echo'' ?args"
    by blast
  ultimately show ?thesis using reg names plain d d' s arr by simp
qed

text \<open>
  C3 as stated fails at two kinds of tools. The parameters of \<open>numberedTool\<close> are declared
  in the order \<open>10, 2\<close>, but \<open>Object.keys\<close> lists \<open>2\<close> first, so the handler receives the
  arguments in the order \<open>2, 10\<close>. The parameter \<open>constructor\<close> of \<open>constructorTool\<close> is
  absent from the empty argument object, but the handler receives the inherited function
  \<open>Object.prototype.constructor\<close>, not \<open>undefined\<close>.
\<close>

theorem argArray_departs_from_declaration:
  "map fst (parameters numberedTool) = [''10'', ''2'']
   \<and> argArray numberedTool [(''10'', JStr ''ten''), (''2'', JStr ''two'')] = [JStr ''two'', JStr ''ten'']
   \<and> executeTool (registerAll [numberedTool, constructorTool]) ''numbered''
        [(''10'', JStr ''ten''), (''2'', JStr ''two'')] = Inr ''<two><ten>''
   \<and> map fst (parameters constructorTool) = [''constructor'']
   \<and> map_of ([] :: js_object) ''constructor'' = None
   \<and> argArray constructorTool [] = [JBuiltin ''Object.prototype.constructor'']
   \<and> executeTool (registerAll [numberedTool, constructorTool]) ''build'' []
        = Inr ''<function Object.prototype.constructor>''"
proof -
  let ?tools = "registerAll [numberedTool, constructorTool]"
  have reg: "map_of ?tools ''numbered'' = Some numberedTool" "map_of ?tools ''build'' = Some constructorTool"
    by (simp_all add: registerAll_def registerTool_def numberedTool_def constructorTool_def)
  have k1: "Object_keys (parameters numberedTool) = [''2'', ''10'']"
    by (simp add: Object_keys_def Object_entries_def numberedTool_def isArrayIndex_def decimalValue_def
          digitValue_def)
  have k2: "Object_keys (parameters constructorTool) = [''constructor'']"
    by (simp add: Object_keys_def Object_entries_def constructorTool_def isArrayIndex_def digitValue_def)
  have a1: "argArray numberedTool [(''10'', JStr ''ten''), (''2'', JStr ''two'')] = [JStr ''two'', JStr ''ten'']"
    by (simp add: argArray_def k1 property_def)
  have a2: "argArray constructorTool [] = [JBuiltin ''Object.prototype.constructor'']"
    by (simp add: argArray_def k2 property_def inherited_def objectPrototypeFunctions_def)
  have h1: "handler numberedTool [JStr ''two'', JStr ''ten''] = Inr ''<two><ten>''"
    by (simp add: numberedTool_def reportArguments_def)
  have h2: "handler constructorTool [JBuiltin ''Object.prototype.constructor'']
              = Inr ''<function Object.prototype.constructor>''"
    by (simp add: constructorTool_def reportArguments_def)
  have e1: "executeTool ?tools ''numbered'' [(''10'', JStr ''ten''), (''2'', JStr ''two'')] = Inr ''<two><ten>''"
    by (simp add: executeTool_def reg a1 h1)
  have e2: "executeTool ?tools ''build'' [] = Inr ''<function Object.prototype.constructor>''"
    by (simp add: executeTool_def reg a2 h2)
  have d: "map fst (parameters numberedTool) = [''10'', ''2'']"
      "map fst (parameters constructorTool) = [''constructor'']"
    by (simp_all add: numberedTool_def constructorTool_def)
  from d a1 e1 a2 e2 show ?thesis by simp
qed

text \<open>
  C5, amended. After any sequence of \<open>registerTool\<close> calls of tools none of whose parameters
  is named \<open>__proto__\<close> (each tool's parameter record having distinct keys, as every
  JavaScript object has), \<open>getOpenAISchema\<close> lists exactly the registered names, without
  duplicates, in the order in which each name was first registered, and the entry for a
  name is the rendering \<open>describeTool\<close> of the definition registered last under that name.
\<close>

theorem getOpenAISchema_registerAll:
  assumes "\<forall>d \<in> set defs. distinct (map fst (parameters d)) \<and> ''__proto__'' \<notin> set (map fst (parameters d))"
  shows "map (\<lambda>e. fn_name (tool_function e)) (getOpenAISchema (registerAll defs)) = registrationOrder defs
       \<and> distinct (registrationOrder defs)
       \<and> set (registrationOrder defs) = name ` set defs
       \<and> map Some (getOpenAISchema (registerAll defs)) =
           map (\<lambda>nm. map_option describeTool (latest defs nm)) (registrationOrder defs)"
proof -
  have wf: "\<forall>d \<in> set (map snd (registerAll defs)).
              distinct (map fst (parameters d)) \<and> ''__proto__'' \<notin> set (map fst (parameters d))"
  proof
    fix d
    assume "d \<in> set (map snd (registerAll defs))"
    then obtain n where "(n, d) \<in> set (registerAll defs)" by auto
    then have "d \<in> set defs" using entries_registerAll by blast
    with assms show "distinct (map fst (parameters d)) \<and> ''__proto__'' \<notin> set (map fst (parameters d))"
      by blast
  qed
  have sch: "getOpenAISchema (registerAll defs) = map (describeTool \<circ> snd) (registerAll defs)"
    by (rule schema_map[OF wf])
  have key: "name (snd e) = fst e" if "e \<in> set (registerAll defs)" for e
    using that entries_registerAll[of "fst e" "snd e" defs] by simp
  have look: "latest defs (fst e) = Some (snd e)" if "e \<in> set (registerAll defs)" for e
  proof -
    have "distinct (map fst (registerAll defs))" by (simp add: names_registerAll)
    then have "map_of (registerAll defs) (fst e) = Some (snd e)"
      using that by simp
    then show ?thesis by (simp add: latest_def map_of_registerAll)
  qed
  have 1: "map (\<lambda>e. fn_name (tool_function e)) (getOpenAISchema (registerAll defs)) = registrationOrder defs"
  proof -
    have "map (\<lambda>e. fn_name (tool_function e)) (getOpenAISchema (registerAll defs)) = map fst (registerAll defs)"
      unfolding sch using key by (simp add: describeTool_def)
    then show ?thesis by (simp add: names_registerAll registrationOrder_def)
  qed
  have 4: "map Some (getOpenAISchema (registerAll defs)) =
           map (\<lambda>nm. map_option describeTool (latest defs nm)) (registrationOrder defs)"
  proof -
    have "map (\<lambda>nm. map_option describeTool (latest defs nm)) (registrationOrder defs)
        = map (\<lambda>e. map_option describeTool (latest defs (fst e))) (registerAll defs)"
      by (simp add: registrationOrder_def names_registerAll[symmetric] comp_def)
    also have "\<dots> = map (\<lambda>e. Some (describeTool (snd e))) (registerAll defs)"
      using look by (intro map_cong) auto
    finally show ?thesis by (simp add: sch comp_def)
  qed
  have 2: "distinct (registrationOrder defs)" by (simp add: registrationOrder_def)
  have 3: "set (registrationOrder defs) = name ` set defs" by (simp add: registrationOrder_def)
  from 1 2 3 4 show ?thesis by blast
qed

theorem getOpenAISchema_registerAll_witness:
  "distinct (map fst (parameters transferV1)) \<and> distinct (map fst (parameters checkBalance))
   \<and> distinct (map fst (parameters transferV2))
   \<and> map fst (parameters transferV1) = [''amount''] \<and> map fst (parameters checkBalance) = []
   \<and> map fst (parameters transferV2) = [''amount'', ''memo'']
   \<and> map (\<lambda>e. fn_name (tool_function e)) (getOpenAISchema (registerAll [transferV1, checkBalance, transferV2]))
       = [''transfer'', ''checkBalance'']
   \<and> getOpenAISchema (registerAll [transferV1, checkBalance, transferV2])
       = [describeTool transferV2, describeTool checkBalance]
   \<and> fn_parameters (tool_function (describeTool transferV2))
       = \<lparr>schema_type = ''object'',
          properties = [(''amount'', \<lparr>prop_type = TNumber, prop_description = ''Amount''\<rparr>),
                        (''memo'', \<lparr>prop_type = TString, prop_description = ''Memo''\<rparr>)],
          required_names = [''amount'']\<rparr>
   \<and> required_names (fn_parameters (tool_function (describeTool transferV1))) = [''amount'']"
proof -
  let ?defs = "[transferV1, checkBalance, transferV2]"
  have names: "map fst (parameters transferV1) = [''amount'']" "map fst (parameters checkBalance) = []"
      "map fst (parameters transferV2) = [''amount'', ''memo'']"
    by (simp_all add: transferV1_def checkBalance_def transferV2_def)
  have wf: "\<forall>d \<in> set ?defs. distinct (map fst (parameters d)) \<and> ''__proto__'' \<notin> set (map fst (parameters d))"
    by (simp add: transferV1_def checkBalance_def transferV2_def)
  have dist: "distinct (map fst (parameters transferV1))" "distinct (map fst (parameters checkBalance))"
      "distinct (map fst (parameters transferV2))"
    by (simp_all add: names)
  have ord: "registrationOrder ?defs = [''transfer'', ''checkBalance'']"
    by (simp add: registrationOrder_def transferV1_def checkBalance_def transferV2_def)
  have l1: "latest ?defs ''transfer'' = Some transferV2"
    by (simp add: latest_def transferV1_def checkBalance_def transferV2_def)
  have l2: "latest ?defs ''checkBalance'' = Some checkBalance"
    by (simp add: latest_def transferV1_def checkBalance_def transferV2_def)
  note t = getOpenAISchema_registerAll[OF wf]
  from t have order: "map (\<lambda>e. fn_name (tool_function e)) (getOpenAISchema (registerAll ?defs))
       = [''transfer'', ''checkBalance'']"
    by (simp add: ord)
  from t have "map Some (getOpenAISchema (registerAll ?defs))
       = map Some [describeTool transferV2, describeTool checkBalance]"
    by (simp add: ord l1 l2)
  then have entries: "getOpenAISchema (registerAll ?defs) = [describeTool transferV2, describeTool checkBalance]"
    by (simp only: inj_map_eq_map[OF inj_Some])
  have shape: "fn_parameters (tool_function (describeTool transferV2))
       = \<lparr>schema_type = ''object'',
          properties = [(''amount'', \<lparr>prop_type = TNumber, prop_description = ''Amount''\<rparr>),
                        (''memo'', \<lparr>prop_type = TString, prop_description = ''Memo''\<rparr>)],
          required_names = [''amount'']\<rparr>"
    by (simp add: describeTool_def transferV2_def Object_entries_def isArrayIndex_def digitValue_def)
  have req: "required_names (fn_parameters (tool_function (describeTool transferV1))) = [''amount'']"
    by (simp add: describeTool_def transferV1_def Object_entries_def isArrayIndex_def digitValue_def)
  from dist names order entries shape req show ?thesis by simp
qed


text \<open>
  C5 as stated fails for a tool with a parameter named \<open>__proto__\<close>: the assignment
  \<open>props['__proto__'] = ...\<close> creates no property, so the schema of \<open>protoTool\<close> shows the
  parameter \<open>depth\<close> only, while \<open>required\<close> still lists \<open>__proto__\<close>. The rendering of the
  specification has a property for each of the two parameters.
\<close>

theorem getOpenAISchema_omits_proto_parameter:
  "map fst (parameters protoTool) = [''__proto__'', ''depth'']
   \<and> getOpenAISchema (registerAll [protoTool]) =
       [\<lparr>tool_type = ''function'',
         tool_function =
           \<lparr>fn_name = ''inspect'', fn_description = ''A parameter named __proto__'',
            fn_parameters =
              \<lparr>schema_type = ''object'',
               properties = [(''depth'', \<lparr>prop_type = TNumber, prop_description = ''levels''\<rparr>)],
               required_names = [''__proto__'']\<rparr>\<rparr>\<rparr>]
   \<and> properties (fn_parameters (tool_function (describeTool protoTool)))
       = [(''__proto__'', \<lparr>prop_type = TObject, prop_description = ''prototype''\<rparr>),
          (''depth'', \<lparr>prop_type = TNumber, prop_description = ''levels''\<rparr>)]
   \<and> getOpenAISchema (registerAll [protoTool]) \<noteq> [describeTool protoTool]"
proof -
  have e: "Object_entries (parameters protoTool) = parameters protoTool"
    by (simp add: Object_entries_def protoTool_def isArrayIndex_def digitValue_def)
  have n: "map fst (parameters protoTool) = [''__proto__'', ''depth'']"
    by (simp add: protoTool_def)
  have s: "getOpenAISchema (registerAll [protoTool]) =
       [\<lparr>tool_type = ''function'',
         tool_function =
           \<lparr>fn_name = ''inspect'', fn_description = ''A parameter named __proto__'',
            fn_parameters =
              \<lparr>schema_type = ''object'',
               properties = [(''depth'', \<lparr>prop_type = TNumber, prop_description = ''levels''\<rparr>)],
               required_names = [''__proto__'']\<rparr>\<rparr>\<rparr>]"
    by (simp add: getOpenAISchema_def registerAll_def registerTool_def e)
       (simp add: protoTool_def assignProperty_def)
  have d: "properties (fn_parameters (tool_function (describeTool protoTool)))
       = [(''__proto__'', \<lparr>prop_type = TObject, prop_description = ''prototype''\<rparr>),
          (''depth'', \<lparr>prop_type = TNumber, prop_description = ''levels''\<rparr>)]"
    by (simp add: describeTool_def e) (simp add: protoTool_def)
  have "getOpenAISchema (registerAll [protoTool]) \<noteq> [describeTool protoTool]"
  proof
    assume "getOpenAISchema (registerAll [protoTool]) = [describeTool protoTool]"
    with s have "properties (fn_parameters (tool_function (describeTool protoTool)))
                   = [(''depth'', \<lparr>prop_type = TNumber, prop_description = ''levels''\<rparr>)]"
      by (metis ChatCompletionTool.select_convs(2) list.inject schema_function.select_convs(3)
            schema_parameters.select_convs(2))
    with d show False by simp
  qed
  with n s d show ?thesis by simp
qed

section \<open>Properties of the conversation entities\<close>

lemma updateFirst_index:
  "updateFirst P f xs =
     (if firstIndex P xs < length xs then xs[firstIndex P xs := f (xs ! firstIndex P xs)] else xs)"
  by (induction xs) (auto simp: firstIndex_def)

lemma find_firstIndex:
  "List.find P xs = (if firstIndex P xs < length xs then Some (xs ! firstIndex P xs) else None)"
  by (induction xs) (auto simp: firstIndex_def)

lemma firstIndex_first: "j < firstIndex P xs \<Longrightarrow> \<not> P (xs ! j)"
  unfolding firstIndex_def by (metis nth_length_takeWhile takeWhile_nth nth_mem set_takeWhileD)

lemma firstIndex_sat: "firstIndex P xs < length xs \<Longrightarrow> P (xs ! firstIndex P xs)"
  unfolding firstIndex_def by (metis nth_length_takeWhile)

text \<open>
  C10. In the entity that finds requests by session, \<open>handleApproval\<close> for a session
  changes exactly one approval request: the first one in the list (the list is in order
  of creation, requests are only appended) whose \<open>sessionId\<close> is the given one and whose
  status is pending. It gets the decision, the response and the time stamp. Every other
  request, the length of the list, the chat history and \<open>createdAt\<close> stay as they were
  (\<open>lastUpdated\<close> is set). When no request of the session is pending, nothing is stored
  and the reply is the not-found failure.
\<close>

theorem handleApproval_by_session_frame:
  fixes stored :: "SessionApprovalRequest ApprovalConversationState option"
    and clk :: clock_reads and sid :: string
  defines "state \<equiv> getState stored (initialApprovalState clk)"
  defines "i \<equiv> firstIndex (\<lambda>a. sessionId a = sid \<and> status a = Pending) (pendingApprovals state)"
  shows "(i < length (pendingApprovals state) \<longrightarrow>
            sessionId (pendingApprovals state ! i) = sid
          \<and> status (pendingApprovals state ! i) = Pending
          \<and> (\<forall>j < i. \<not> (sessionId (pendingApprovals state ! j) = sid \<and> status (pendingApprovals state ! j) = Pending))
          \<and> orchestratorEntity clk stored (O_HandleApproval sid d response)
              = (Some (state\<lparr>pendingApprovals :=
                               (pendingApprovals state)[i := resolve clk d response (pendingApprovals state ! i)],
                             lastUpdated := updatedAt clk\<rparr>),
                 O_Resolved (resolve clk d response (pendingApprovals state ! i))))
       \<and> (\<not> i < length (pendingApprovals state) \<longrightarrow>
            orchestratorEntity clk stored (O_HandleApproval sid d response)
              = (stored, O_Failure ''Approval request not found''))
       \<and> (\<forall>state'. fst (orchestratorEntity clk stored (O_HandleApproval sid d response)) = Some state' \<longrightarrow>
            chatHistory state' = chatHistory state
          \<and> createdAt state' = createdAt state
          \<and> length (pendingApprovals state') = length (pendingApprovals state)
          \<and> (\<forall>j < length (pendingApprovals state). j \<noteq> i \<longrightarrow> pendingApprovals state' ! j = pendingApprovals state ! j))"
proof -
  let ?P = "\<lambda>a. sessionId a = sid \<and> status a = Pending"
  let ?xs = "pendingApprovals state"
  have found: "orchestratorEntity clk stored (O_HandleApproval sid d response)
              = (Some (state\<lparr>pendingApprovals := ?xs[i := resolve clk d response (?xs ! i)],
                             lastUpdated := updatedAt clk\<rparr>),
                 O_Resolved (resolve clk d response (?xs ! i)))" if "i < length ?xs"
    using that unfolding i_def state_def
    by (simp add: find_firstIndex updateFirst_index Let_def)
  have missing: "orchestratorEntity clk stored (O_HandleApproval sid d response)
              = (stored, O_Failure ''Approval request not found'')" if "\<not> i < length ?xs"
    using that unfolding i_def state_def
    by (simp add: find_firstIndex Let_def)
  have sat: "?P (?xs ! i)" if "i < length ?xs"
    using that firstIndex_sat[of ?P ?xs] unfolding i_def by simp
  have first: "\<forall>j < i. \<not> ?P (?xs ! j)"
    using firstIndex_first[of _ ?P ?xs] unfolding i_def by blast
  have frame: "chatHistory state' = chatHistory state \<and> createdAt state' = createdAt state
          \<and> length (pendingApprovals state') = length ?xs
          \<and> (\<forall>j < length ?xs. j \<noteq> i \<longrightarrow> pendingApprovals state' ! j = ?xs ! j)"
    if "fst (orchestratorEntity clk stored (O_HandleApproval sid d response)) = Some state'" for state'
  proof (cases "i < length ?xs")
    case True
    with that found show ?thesis by auto
  next
    case False
    with that missing have "stored = Some state'" by simp
    then show ?thesis by (simp add: state_def getState_def)
  qed
  from found missing sat first frame show ?thesis by blast
qed


lemma find_updateFirst:
  "List.find P xs = Some a \<Longrightarrow> P (f a) \<Longrightarrow> List.find P (updateFirst P f xs) = Some (f a)"
  by (induction xs) (auto split: if_splits)

lemma id_resolve: "id' (resolve clk d response a) = id' a"
  by (simp add: resolve_def)

lemma find_id: "List.find (\<lambda>a. id' a = k) xs = Some a \<Longrightarrow> id' a = k"
  by (induction xs) (auto split: if_splits)

text \<open>
  C6. In the entity of \<open>durableWrapper.ts\<close>: \<open>addApprovalRequest\<close> appends a request whose
  status is pending and replies with its id; \<open>handleApproval\<close> with the decision
  \<open>approved\<close> on an id that some stored request has turns (the first) such request into
  status approved with the response and the time of the decision, and it is what a
  lookup of the id then finds; \<open>handleApproval\<close> on an id that no stored request has
  replies with the failure \<open>Approval request not found\<close> and stores nothing.
\<close>

theorem approval_lifecycle:
  fixes stored :: "HumanApprovalRequest ApprovalConversationState option"
    and clk :: clock_reads
  defines "state \<equiv> getState stored (initialApprovalState clk)"
  shows "(\<exists>state' r.
            wrapperEntity clk guid stored (W_AddApprovalRequest tn targs why) = (Some state', W_Created guid)
          \<and> pendingApprovals state' = pendingApprovals state @ [r]
          \<and> status r = Pending \<and> id' r = guid \<and> toolName r = tn \<and> toolArgs r = targs
          \<and> humanResponse r = None \<and> humanResponseTimestamp r = None)
       \<and> (\<forall>a. List.find (\<lambda>a. id' a = approvalId) (pendingApprovals state) = Some a \<longrightarrow>
            (\<exists>state' a'.
               wrapperEntity clk guid stored (W_HandleApproval approvalId DecisionApproved response)
                 = (Some state', W_Resolved a')
             \<and> List.find (\<lambda>a. id' a = approvalId) (pendingApprovals state') = Some a'
             \<and> a' = a\<lparr>status := Approved, humanResponse := response,
                       humanResponseTimestamp := Some (stampedAt clk)\<rparr>))
       \<and> ((\<forall>a \<in> set (pendingApprovals state). id' a \<noteq> approvalId) \<longrightarrow>
            wrapperEntity clk guid stored (W_HandleApproval approvalId d response)
              = (stored, W_Failure ''Approval request not found''))"
proof -
  have created: "\<exists>state' r.
            wrapperEntity clk guid stored (W_AddApprovalRequest tn targs why) = (Some state', W_Created guid)
          \<and> pendingApprovals state' = pendingApprovals state @ [r]
          \<and> status r = Pending \<and> id' r = guid \<and> toolName r = tn \<and> toolArgs r = targs
          \<and> humanResponse r = None \<and> humanResponseTimestamp r = None"
    by (simp add: state_def Let_def)
  have approved: "\<exists>state' a'.
               wrapperEntity clk guid stored (W_HandleApproval approvalId DecisionApproved response)
                 = (Some state', W_Resolved a')
             \<and> List.find (\<lambda>a. id' a = approvalId) (pendingApprovals state') = Some a'
             \<and> a' = a\<lparr>status := Approved, humanResponse := response,
                       humanResponseTimestamp := Some (stampedAt clk)\<rparr>"
    if f: "List.find (\<lambda>a. id' a = approvalId) (pendingApprovals state) = Some a" for a
  proof -
    let ?f = "resolve clk DecisionApproved response"
    have "id' (?f a) = approvalId" using find_id[OF f] by (simp add: id_resolve)
    from find_updateFirst[OF f, of ?f, OF this]
    show ?thesis using f by (simp add: state_def[symmetric] Let_def resolve_def)
  qed
  have missing: "wrapperEntity clk guid stored (W_HandleApproval approvalId d response)
              = (stored, W_Failure ''Approval request not found'')"
    if "\<forall>a \<in> set (pendingApprovals state). id' a \<noteq> approvalId"
  proof -
    from that have "List.find (\<lambda>a. id' a = approvalId) (pendingApprovals state) = None"
      by (simp add: find_None_iff)
    then show ?thesis by (simp add: state_def[symmetric] Let_def)
  qed
  from created approved missing show ?thesis by blast
qed

text \<open>
  C7. \<open>handleApproval\<close> of \<open>durableWrapper.ts\<close> does not look at the status: on an id whose
  request is already approved or rejected it succeeds again, and the stored request then
  carries the new decision, the new response and the new time stamp.
\<close>

theorem handleApproval_overwrites_terminal:
  fixes stored :: "HumanApprovalRequest ApprovalConversationState option"
    and clk :: clock_reads
  defines "state \<equiv> getState stored (initialApprovalState clk)"
  assumes "List.find (\<lambda>a. id' a = approvalId) (pendingApprovals state) = Some a"
    and "status a = Approved \<or> status a = Rejected"
  shows "\<exists>state' a'.
           wrapperEntity clk guid stored (W_HandleApproval approvalId d response) = (Some state', W_Resolved a')
         \<and> List.find (\<lambda>a. id' a = approvalId) (pendingApprovals state') = Some a'
         \<and> status a' = statusOf d
         \<and> humanResponse a' = response
         \<and> humanResponseTimestamp a' = Some (stampedAt clk)
         \<and> lastUpdated state' = updatedAt clk"
proof -
  let ?f = "resolve clk d response"
  have "id' (?f a) = approvalId" using find_id[OF assms(2)] by (simp add: id_resolve)
  from find_updateFirst[OF assms(2), of ?f, OF this]
  show ?thesis using assms(2) by (simp add: state_def[symmetric] Let_def resolve_def)
qed


theorem approval_lifecycle_witness:
  "wrapperEntity clockA ''guid-1'' None (W_AddApprovalRequest ''makePayment'' paymentArgs ''pay'')
     = (Some oneRequestState, W_Created ''guid-1'')
   \<and> status (hd (pendingApprovals oneRequestState)) = Pending
   \<and> List.find (\<lambda>a. id' a = ''guid-1'') (pendingApprovals oneRequestState) = Some pendingPayment
   \<and> wrapperEntity clockB ''guid-2'' (Some oneRequestState) (W_HandleApproval ''guid-1'' DecisionApproved (Some ''ok''))
     = (Some (oneRequestState\<lparr>pendingApprovals :=
                 [pendingPayment\<lparr>status := Approved, humanResponse := Some ''ok'',
                                 humanResponseTimestamp := Some ''2025-01-01T11:00:00.001Z''\<rparr>],
               lastUpdated := ''2025-01-01T11:00:00.002Z''\<rparr>),
        W_Resolved (pendingPayment\<lparr>status := Approved, humanResponse := Some ''ok'',
                                   humanResponseTimestamp := Some ''2025-01-01T11:00:00.001Z''\<rparr>))
   \<and> wrapperEntity clockB ''guid-2'' (Some oneRequestState) (W_HandleApproval ''guid-9'' DecisionApproved (Some ''ok''))
     = (Some oneRequestState, W_Failure ''Approval request not found'')"
proof -
  have st: "getState (Some oneRequestState) (initialApprovalState clockB) = oneRequestState"
    by (simp add: getState_def)
  have f: "List.find (\<lambda>a. id' a = ''guid-1'') (pendingApprovals oneRequestState) = Some pendingPayment"
    by (simp add: oneRequestState_def pendingPayment_def)
  have n: "\<forall>a \<in> set (pendingApprovals oneRequestState). id' a \<noteq> ''guid-9''"
    by (simp add: oneRequestState_def pendingPayment_def)
  note t = approval_lifecycle[where stored = "Some oneRequestState" and clk = clockB and guid = "''guid-2''"
      and response = "Some ''ok''" and d = DecisionApproved, unfolded st]
  from t[where approvalId = "''guid-9''"] n
  have missing: "wrapperEntity clockB ''guid-2'' (Some oneRequestState) (W_HandleApproval ''guid-9'' DecisionApproved (Some ''ok''))
     = (Some oneRequestState, W_Failure ''Approval request not found'')"
    by blast
  from t[where approvalId = "''guid-1''"] f
  obtain state' a' where r: "wrapperEntity clockB ''guid-2'' (Some oneRequestState) (W_HandleApproval ''guid-1'' DecisionApproved (Some ''ok''))
                 = (Some state', W_Resolved a')"
      "a' = pendingPayment\<lparr>status := Approved, humanResponse := Some ''ok'',
                       humanResponseTimestamp := Some (stampedAt clockB)\<rparr>"
    by blast
  have state': "state' = oneRequestState\<lparr>pendingApprovals :=
                 [pendingPayment\<lparr>status := Approved, humanResponse := Some ''ok'',
                                 humanResponseTimestamp := Some ''2025-01-01T11:00:00.001Z''\<rparr>],
               lastUpdated := ''2025-01-01T11:00:00.002Z''\<rparr>"
    using r(1) by (auto simp: getState_def oneRequestState_def pendingPayment_def resolve_def clockB_def)
  have created: "wrapperEntity clockA ''guid-1'' None (W_AddApprovalRequest ''makePayment'' paymentArgs ''pay'')
     = (Some oneRequestState, W_Created ''guid-1'')"
    by (simp add: getState_def initialApprovalState_def oneRequestState_def pendingPayment_def clockA_def)
  have p: "status (hd (pendingApprovals oneRequestState)) = Pending"
    by (simp add: oneRequestState_def pendingPayment_def)
  from created p f r state' missing show ?thesis by (simp add: clockB_def)
qed


theorem handleApproval_overwrites_terminal_witness:
  "List.find (\<lambda>a. id' a = ''guid-1'') (pendingApprovals decidedState) = Some approvedPayment
   \<and> status approvedPayment = Approved
   \<and> wrapperEntity clockB ''guid-2'' (Some decidedState)
        (W_HandleApproval ''guid-1'' DecisionRejected (Some ''changed my mind''))
     = (Some (decidedState\<lparr>pendingApprovals :=
                 [pendingPayment\<lparr>status := Rejected, humanResponse := Some ''changed my mind'',
                                 humanResponseTimestamp := Some ''2025-01-01T11:00:00.001Z''\<rparr>],
               lastUpdated := ''2025-01-01T11:00:00.002Z''\<rparr>),
        W_Resolved (pendingPayment\<lparr>status := Rejected, humanResponse := Some ''changed my mind'',
                                   humanResponseTimestamp := Some ''2025-01-01T11:00:00.001Z''\<rparr>))"
proof -
  have st: "getState (Some decidedState) (initialApprovalState clockB) = decidedState"
    by (simp add: getState_def)
  have f: "List.find (\<lambda>a. id' a = ''guid-1'') (pendingApprovals decidedState) = Some approvedPayment"
    by (simp add: decidedState_def approvedPayment_def oneRequestState_def pendingPayment_def)
  have s: "status approvedPayment = Approved \<or> status approvedPayment = Rejected"
    by (simp add: approvedPayment_def)
  from handleApproval_overwrites_terminal[where stored = "Some decidedState" and clk = clockB
      and guid = "''guid-2''" and approvalId = "''guid-1''" and d = DecisionRejected
      and response = "Some ''changed my mind''", unfolded st, OF f s]
  obtain state' a' where r: "wrapperEntity clockB ''guid-2'' (Some decidedState)
        (W_HandleApproval ''guid-1'' DecisionRejected (Some ''changed my mind'')) = (Some state', W_Resolved a')"
    and a: "status a' = statusOf DecisionRejected" "humanResponse a' = Some ''changed my mind''"
    by blast
  from r have "state' = decidedState\<lparr>pendingApprovals :=
                 [pendingPayment\<lparr>status := Rejected, humanResponse := Some ''changed my mind'',
                                 humanResponseTimestamp := Some ''2025-01-01T11:00:00.001Z''\<rparr>],
               lastUpdated := ''2025-01-01T11:00:00.002Z''\<rparr>
        \<and> a' = pendingPayment\<lparr>status := Rejected, humanResponse := Some ''changed my mind'',
                                   humanResponseTimestamp := Some ''2025-01-01T11:00:00.001Z''\<rparr>"
    by (auto simp: getState_def decidedState_def approvedPayment_def oneRequestState_def
          pendingPayment_def resolve_def clockB_def)
  with r f show ?thesis by (simp add: approvedPayment_def)
qed

theorem handleApproval_by_session_frame_witness:
  "firstIndex (\<lambda>a. sessionId a = ''s1'' \<and> status a = Pending) (pendingApprovals threeRequestState) = 1
   \<and> orchestratorEntity clockB (Some threeRequestState) (O_HandleApproval ''s1'' DecisionApproved (Some ''go''))
     = (Some (threeRequestState\<lparr>pendingApprovals :=
                 [sessionRequest ''makePayment'' Approved,
                  (sessionRequest ''deleteFile'' Pending)\<lparr>status := Approved, humanResponse := Some ''go'',
                      humanResponseTimestamp := Some ''2025-01-01T11:00:00.001Z''\<rparr>,
                  sessionRequest ''sendEmail'' Pending],
               lastUpdated := ''2025-01-01T11:00:00.002Z''\<rparr>),
        O_Resolved ((sessionRequest ''deleteFile'' Pending)\<lparr>status := Approved, humanResponse := Some ''go'',
                      humanResponseTimestamp := Some ''2025-01-01T11:00:00.001Z''\<rparr>))
   \<and> orchestratorEntity clockB (Some threeRequestState) (O_HandleApproval ''s2'' DecisionApproved (Some ''go''))
     = (Some threeRequestState, O_Failure ''Approval request not found'')"
proof -
  have st: "getState (Some threeRequestState) (initialApprovalState clockB) = threeRequestState"
    by (simp add: getState_def)
  have i1: "firstIndex (\<lambda>a. sessionId a = ''s1'' \<and> status a = Pending) (pendingApprovals threeRequestState) = 1"
    by (simp add: firstIndex_def threeRequestState_def sessionRequest_def)
  have i2: "firstIndex (\<lambda>a. sessionId a = ''s2'' \<and> status a = Pending) (pendingApprovals threeRequestState) = 3"
    by (simp add: firstIndex_def threeRequestState_def sessionRequest_def)
  have len: "length (pendingApprovals threeRequestState) = 3"
    by (simp add: threeRequestState_def)
  note t = handleApproval_by_session_frame[where stored = "Some threeRequestState" and clk = clockB
      and d = DecisionApproved and response = "Some ''go''", unfolded st]
  have lt: "firstIndex (\<lambda>a. sessionId a = ''s1'' \<and> status a = Pending) (pendingApprovals threeRequestState)
             < length (pendingApprovals threeRequestState)"
    by (simp add: i1 len)
  have nlt: "\<not> firstIndex (\<lambda>a. sessionId a = ''s2'' \<and> status a = Pending) (pendingApprovals threeRequestState)
             < length (pendingApprovals threeRequestState)"
    by (simp add: i2 len)
  from t[where sid = "''s1''"] lt have found:
    "orchestratorEntity clockB (Some threeRequestState) (O_HandleApproval ''s1'' DecisionApproved (Some ''go''))
       = (Some (threeRequestState\<lparr>pendingApprovals :=
                  (pendingApprovals threeRequestState)[1 := resolve clockB DecisionApproved (Some ''go'')
                                                          (pendingApprovals threeRequestState ! 1)],
                lastUpdated := updatedAt clockB\<rparr>),
          O_Resolved (resolve clockB DecisionApproved (Some ''go'') (pendingApprovals threeRequestState ! 1)))"
    unfolding i1 by blast
  from t[where sid = "''s2''"] nlt have missing:
    "orchestratorEntity clockB (Some threeRequestState) (O_HandleApproval ''s2'' DecisionApproved (Some ''go''))
       = (Some threeRequestState, O_Failure ''Approval request not found'')"
    by blast
  have ev: "(pendingApprovals threeRequestState)[1 := resolve clockB DecisionApproved (Some ''go'')
                                                          (pendingApprovals threeRequestState ! 1)]
          = [sessionRequest ''makePayment'' Approved,
                  (sessionRequest ''deleteFile'' Pending)\<lparr>status := Approved, humanResponse := Some ''go'',
                      humanResponseTimestamp := Some ''2025-01-01T11:00:00.001Z''\<rparr>,
                  sessionRequest ''sendEmail'' Pending]"
    by (simp add: threeRequestState_def resolve_def clockB_def)
  have ev2: "resolve clockB DecisionApproved (Some ''go'') (pendingApprovals threeRequestState ! 1)
      = (sessionRequest ''deleteFile'' Pending)\<lparr>status := Approved, humanResponse := Some ''go'',
                      humanResponseTimestamp := Some ''2025-01-01T11:00:00.001Z''\<rparr>"
    by (simp add: threeRequestState_def resolve_def clockB_def)
  have u: "updatedAt clockB = ''2025-01-01T11:00:00.002Z''"
    by (simp add: clockB_def)
  from found have found':
    "orchestratorEntity clockB (Some threeRequestState) (O_HandleApproval ''s1'' DecisionApproved (Some ''go''))
     = (Some (threeRequestState\<lparr>pendingApprovals :=
                 [sessionRequest ''makePayment'' Approved,
                  (sessionRequest ''deleteFile'' Pending)\<lparr>status := Approved, humanResponse := Some ''go'',
                      humanResponseTimestamp := Some ''2025-01-01T11:00:00.001Z''\<rparr>,
                  sessionRequest ''sendEmail'' Pending],
               lastUpdated := ''2025-01-01T11:00:00.002Z''\<rparr>),
        O_Resolved ((sessionRequest ''deleteFile'' Pending)\<lparr>status := Approved, humanResponse := Some ''go'',
                      humanResponseTimestamp := Some ''2025-01-01T11:00:00.001Z''\<rparr>))"
    by (simp only: ev) (simp only: ev2 u)
  from i1 found' missing show ?thesis by blast
qed

section \<open>Properties of the plain chat orchestrator\<close>

lemma chatHistory_chatOrchestrator:
  "chatHistory (getState (fst (chatOrchestrator t stored)) (initialState c'))
     = chatHistory (getState stored (initialState c)) @ turnMessages t"
  by (cases stored; cases "activityResult t")
     (simp_all add: chatOrchestrator_def getState_def initialState_def addMessage_def turnMessages_def)

lemma chatHistory_runTurns:
  "chatHistory (getState (runTurns stored ts) (initialState c))
     = chatHistory (getState stored (initialState c)) @ concat (map turnMessages ts)"
proof (induction ts arbitrary: stored)
  case Nil
  then show ?case by simp
next
  case (Cons t ts)
  show ?case
    using Cons.IH[of "fst (chatOrchestrator t stored)"] chatHistory_chatOrchestrator[of t stored c c]
    by simp
qed

lemma fullHistory_eq: "fullHistory c stored = chatHistory (getState stored (initialState c))"
  by (simp add: fullHistory_def)

text \<open>
  C8. After \<open>N\<close> turns issued one after the other on a new session, each of which
  completed, \<open>getFullHistory\<close> gives \<open>2N\<close> messages: user, assistant, user, assistant, ...
  with the message and the answer of each turn in the order of the turns. On a session
  that already has a history the same messages follow the earlier ones. A turn only
  appends: what was readable before it is a prefix of what is readable after it.
\<close>

theorem history_after_turns:
  assumes "\<forall>t \<in> set ts. completed t"
  shows "length (fullHistory c (runTurns None ts)) = 2 * length ts
       \<and> map role (fullHistory c (runTurns None ts)) = concat (replicate (length ts) [User, Assistant])
       \<and> map content (fullHistory c (runTurns None ts))
           = concat (map (\<lambda>t. [turnMessage t, (case activityResult t of Inr response \<Rightarrow> response | Inl error \<Rightarrow> [])]) ts)
       \<and> (\<forall>stored. fullHistory c (runTurns stored ts) = fullHistory c stored @ fullHistory c (runTurns None ts))
       \<and> (\<forall>stored t. \<exists>new. fullHistory c (fst (chatOrchestrator t stored)) = fullHistory c stored @ new)"
proof -
  have h: "fullHistory c (runTurns None ts) = concat (map turnMessages ts)"
    by (simp add: fullHistory_eq chatHistory_runTurns) (simp add: getState_def initialState_def)
  have tm: "turnMessages t =
     [\<lparr>role = User, content = turnMessage t, timestamp = stampedAt (clkUser t)\<rparr>,
      \<lparr>role = Assistant, content = (case activityResult t of Inr response \<Rightarrow> response | Inl error \<Rightarrow> []),
       timestamp = stampedAt (clkAssistant t)\<rparr>]" if "completed t" for t
    using that by (simp add: completed_def turnMessages_def split: sum.splits)
  from assms have l: "length (concat (map turnMessages ts)) = 2 * length ts"
    by (induction ts) (simp_all add: tm)
  from assms have r: "map role (concat (map turnMessages ts)) = concat (replicate (length ts) [User, Assistant])"
    by (induction ts) (simp_all add: tm)
  from assms have c: "map content (concat (map turnMessages ts))
           = concat (map (\<lambda>t. [turnMessage t, (case activityResult t of Inr response \<Rightarrow> response | Inl error \<Rightarrow> [])]) ts)"
    by (induction ts) (simp_all add: tm)
  have a: "\<forall>stored t. \<exists>new. fullHistory c (fst (chatOrchestrator t stored)) = fullHistory c stored @ new"
    by (simp add: fullHistory_eq chatHistory_chatOrchestrator[where c=c and c'=c])
  have p: "\<forall>stored. fullHistory c (runTurns stored ts) = fullHistory c stored @ fullHistory c (runTurns None ts)"
    unfolding h by (simp add: fullHistory_eq chatHistory_runTurns)
  from l r c have "length (fullHistory c (runTurns None ts)) = 2 * length ts
       \<and> map role (fullHistory c (runTurns None ts)) = concat (replicate (length ts) [User, Assistant])
       \<and> map content (fullHistory c (runTurns None ts))
           = concat (map (\<lambda>t. [turnMessage t, (case activityResult t of Inr response \<Rightarrow> response | Inl error \<Rightarrow> [])]) ts)"
    by (simp only: h)
  with p a show ?thesis by blast
qed

theorem history_after_turns_witness:
  "completed turnOne \<and> completed turnTwo
   \<and> length (fullHistory clockB (runTurns None [turnOne, turnTwo])) = 4
   \<and> map role (fullHistory clockB (runTurns None [turnOne, turnTwo])) = [User, Assistant, User, Assistant]
   \<and> map content (fullHistory clockB (runTurns None [turnOne, turnTwo]))
       = [''What is 9 squared?'', ''The square of 9 is 81'', ''Thanks'', ''You are welcome'']"
proof -
  have c: "\<forall>t \<in> set [turnOne, turnTwo]. completed t"
    by (simp add: completed_def turnOne_def turnTwo_def)
  from history_after_turns[OF c, of clockB]
  have "length (fullHistory clockB (runTurns None [turnOne, turnTwo])) = 2 * length [turnOne, turnTwo]
      \<and> map role (fullHistory clockB (runTurns None [turnOne, turnTwo]))
          = concat (replicate (length [turnOne, turnTwo]) [User, Assistant])
      \<and> map content (fullHistory clockB (runTurns None [turnOne, turnTwo]))
          = concat (map (\<lambda>t. [turnMessage t, (case activityResult t of Inr response \<Rightarrow> response | Inl error \<Rightarrow> [])])
                     [turnOne, turnTwo])"
    by blast
  with c show ?thesis
    by (simp add: turnOne_def turnTwo_def numeral_2_eq_2)
qed

section \<open>Properties of the chat endpoint\<close>

text \<open>
  C9, amended. When the parsed body has neither a truthy \<open>message\<close> nor a truthy \<open>prompt\<close> (the
  field is absent, or null, false, 0 or the empty string, or the body is not an object),
  and the \<open>sessionId\<close> of the body, if it has one, can be converted to a string, the
  handler does not answer with an error: it starts the orchestration with the message
  \<open>Hello\<close>.
\<close>

theorem chat_defaults_to_Hello:
  assumes "\<not> truthy (optionalProperty body ''message'')"
    and "\<not> truthy (optionalProperty body ''prompt'')"
    and "\<not> conversionThrows (optionalProperty body ''sessionId'')"
  shows "\<exists>sid. chatEndpointStart (Inr body) routeSessionId guid
                = Inr \<lparr>inputMessage = ''Hello'', inputSessionId = sid\<rparr>"
  using assms by (simp add: chatEndpointStart_def orElse_def Let_def split: option.splits)

theorem chat_defaults_to_Hello_witness:
  "\<not> truthy (optionalProperty (JObj [(''sessionId'', JStr ''s1''), (''message'', JStr [])]) ''message'')
   \<and> \<not> truthy (optionalProperty (JObj [(''sessionId'', JStr ''s1''), (''message'', JStr [])]) ''prompt'')
   \<and> \<not> conversionThrows (optionalProperty (JObj [(''sessionId'', JStr ''s1''), (''message'', JStr [])]) ''sessionId'')
   \<and> chatEndpointStart (Inr (JObj [(''sessionId'', JStr ''s1''), (''message'', JStr [])])) None ''g''
       = Inr \<lparr>inputMessage = ''Hello'', inputSessionId = JStr ''s1''\<rparr>"
proof -
  let ?body = "JObj [(''sessionId'', JStr ''s1''), (''message'', JStr [])]"
  have m: "\<not> truthy (optionalProperty ?body ''message'')" by (simp add: property_def)
  have p: "\<not> truthy (optionalProperty ?body ''prompt'')"
    by (simp add: property_def inherited_def objectPrototypeFunctions_def)
  have c: "\<not> conversionThrows (optionalProperty ?body ''sessionId'')" by (simp add: property_def)
  from chat_defaults_to_Hello[OF m p c, of None "''g''"]
  obtain sid where r: "chatEndpointStart (Inr ?body) None ''g'' = Inr \<lparr>inputMessage = ''Hello'', inputSessionId = sid\<rparr>"
    by blast
  then have "sid = JStr ''s1''"
    by (simp add: chatEndpointStart_def orElse_def Let_def property_def inherited_def objectPrototypeFunctions_def)
  with r m p c show ?thesis by simp
qed

text \<open>
  C9 as stated fails: the body \<open>{"sessionId": {"toString": 1}}\<close> has neither \<open>message\<close> nor
  \<open>prompt\<close>, but the log line before \<open>startNew\<close> cannot convert its session id to a string;
  the handler answers with status 500 and starts nothing.
\<close>

theorem chat_rejects_unprintable_sessionId:
  "\<not> truthy (optionalProperty (JObj [(''sessionId'', JObj [(''toString'', JNum 1)])]) ''message'')
   \<and> \<not> truthy (optionalProperty (JObj [(''sessionId'', JObj [(''toString'', JNum 1)])]) ''prompt'')
   \<and> chatEndpointStart (Inr (JObj [(''sessionId'', JObj [(''toString'', JNum 1)])])) None ''g''
       = Inl (ErrorObject ''TypeError'' ''Cannot convert object to primitive value'')"
  by (simp add: chatEndpointStart_def orElse_def Let_def property_def inherited_def objectPrototypeFunctions_def)

section \<open>Properties of the approval gate\<close>

lemma registry_lookup_payment: "map_of financialToolRegistry ''makePayment'' = Some makePaymentTool"
  by (simp add: financialToolRegistry_def registerAll_def registerTool_def makePaymentTool_def checkAccountBalanceTool_def)

lemma execute_payment: "executeTool financialToolRegistry ''makePayment'' targs = Inr ''Payment completed''"
  by (simp add: executeTool_def registry_lookup_payment) (simp add: makePaymentTool_def)

lemma deliver_Nil: "deliver sid [] stored = stored"
  by (simp add: deliver_def)

lemma executedTools_append: "executedTools (xs @ ys) = executedTools xs @ executedTools ys"
  by (simp add: executedTools_def)

lemma requestedApprovals_append: "requestedApprovals (xs @ ys) = requestedApprovals xs @ requestedApprovals ys"
  by (simp add: requestedApprovals_def)

lemma callEntity_state: "callEntity clk stored request = (fst (orchestratorEntity clk stored request), None)"
  by (simp add: callEntity_def split: prod.splits)

lemma pollOnce_undefined: "pollOnce env sid tn k stored = (None, deliver sid (inbox env k) stored)"
  by (simp add: pollOnce_def callEntity_state Let_def)

lemma pollApproval_step:
  "now < timeoutDate \<Longrightarrow>
   pollApproval env sid tn timeoutDate now k stored trace
     = pollApproval env sid tn timeoutDate (now + 5000 + int (lateness env k)) (Suc k)
         (deliver sid (inbox env k) stored) (trace @ [TimerFired (now + 5000), EntityCall O_GetState])"
  by (subst pollApproval.simps) (simp add: pollOnce_undefined)

lemma pollApproval_events:
  "\<exists>k' stored' evs.
     pollApproval env sid tn timeoutDate now k stored trace = (None, k', stored', trace @ evs)
     \<and> k \<le> k' \<and> executedTools evs = [] \<and> requestedApprovals evs = []
     \<and> ((\<forall>j \<ge> k. inbox env j = []) \<longrightarrow> stored' = stored)"
proof (induction "nat (timeoutDate - now)" arbitrary: now k stored trace rule: less_induct)
  case less
  show ?case
  proof (cases "now < timeoutDate")
    case False
    then show ?thesis by (simp add: pollApproval.simps executedTools_def requestedApprovals_def)
  next
    case True
    let ?now' = "now + 5000 + int (lateness env k)"
    let ?round = "[TimerFired (now + 5000), EntityCall O_GetState]"
    let ?stored1 = "deliver sid (inbox env k) stored"
    have quiet: "executedTools ?round = []" "requestedApprovals ?round = []"
      by (simp_all add: executedTools_def requestedApprovals_def)
    have "nat (timeoutDate - ?now') < nat (timeoutDate - now)"
      using True by simp
    from less[OF this, of "Suc k" ?stored1 "trace @ ?round"]
    obtain k' stored' evs where r:
        "pollApproval env sid tn timeoutDate ?now' (Suc k) ?stored1 (trace @ ?round)
           = (None, k', stored', (trace @ ?round) @ evs)"
        "Suc k \<le> k'" "executedTools evs = []" "requestedApprovals evs = []"
        "(\<forall>j \<ge> Suc k. inbox env j = []) \<longrightarrow> stored' = ?stored1"
      by blast
    have "executedTools (?round @ evs) = []" "requestedApprovals (?round @ evs) = []"
      using r(3,4) by (simp_all add: executedTools_def requestedApprovals_def)
    moreover have "pollApproval env sid tn timeoutDate now k stored trace
                     = (None, k', stored', trace @ (?round @ evs))"
      using pollApproval_step[OF True] r(1) by simp
    moreover have "k \<le> k'" using r(2) by simp
    moreover have "(\<forall>j \<ge> k. inbox env j = []) \<longrightarrow> stored' = stored"
      using r(5) by (auto simp: deliver_Nil)
    ultimately show ?thesis by blast
  qed
qed

lemma approvalGate_unfold:
  assumes "pollApproval env sid tn (startTime env + approvalTimeoutMinutes * 60 * 1000) (startTime env) 0
             (fst (orchestratorEntity (clkRequest env) stored
                     (O_AddApprovalRequest sid tn targs
                        (''AI wants to execute '' @ tn @ '' with: '' @ stringify env targs))))
             (trace @ [EntityCall (O_AddApprovalRequest sid tn targs
                        (''AI wants to execute '' @ tn @ '' with: '' @ stringify env targs))])
           = (None, k', stored2, trace2)"
  shows "approvalGate env sid approvalTimeoutMinutes tn targs stored trace
         = (fst (orchestratorEntity (clkTimeout env) (deliver sid (inbox env k') stored2)
                   (O_HandleApproval sid DecisionRejected
                      (Some (''Timeout after '' @ showInt approvalTimeoutMinutes @ '' minutes'')))),
            trace2 @ [EntityCall (O_HandleApproval sid DecisionRejected
                      (Some (''Timeout after '' @ showInt approvalTimeoutMinutes @ '' minutes'')))],
            Inr (ApprovalHandled
                   (''[TIMEOUT] Request timed out after '' @ showInt approvalTimeoutMinutes @ '' minutes'')
                   sid tn targs))"
  by (simp only: approvalGate_def Let_def case_prod_beta callEntity_state fst_conv snd_conv assms option.case)

text \<open>
  Whatever is signalled and whenever, the gate ends in its timeout branch: it creates one
  request, never runs the executor and answers with the timeout text.
\<close>

lemma approvalGate_events:
  "\<exists>stored' evs.
     approvalGate env sid approvalTimeoutMinutes tn targs stored trace
       = (stored', trace @ EntityCall (O_AddApprovalRequest sid tn targs
                                        (''AI wants to execute '' @ tn @ '' with: '' @ stringify env targs))
                          # evs,
          Inr (ApprovalHandled
                 (''[TIMEOUT] Request timed out after '' @ showInt approvalTimeoutMinutes @ '' minutes'')
                 sid tn targs))
     \<and> requestedApprovals evs = [] \<and> executedTools evs = []"
proof -
  let ?op = "O_AddApprovalRequest sid tn targs (''AI wants to execute '' @ tn @ '' with: '' @ stringify env targs)"
  let ?rej = "O_HandleApproval sid DecisionRejected
                (Some (''Timeout after '' @ showInt approvalTimeoutMinutes @ '' minutes''))"
  from pollApproval_events[of env sid tn "startTime env + approvalTimeoutMinutes * 60 * 1000"
         "startTime env" 0 "fst (orchestratorEntity (clkRequest env) stored ?op)" "trace @ [EntityCall ?op]"]
  obtain k' stored2 evs where poll:
      "pollApproval env sid tn (startTime env + approvalTimeoutMinutes * 60 * 1000) (startTime env) 0
         (fst (orchestratorEntity (clkRequest env) stored ?op)) (trace @ [EntityCall ?op])
       = (None, k', stored2, (trace @ [EntityCall ?op]) @ evs)"
    and q: "executedTools evs = []" "requestedApprovals evs = []"
    by blast
  have q2: "executedTools (evs @ [EntityCall ?rej]) = []" "requestedApprovals (evs @ [EntityCall ?rej]) = []"
    using q by (simp_all add: executedTools_def requestedApprovals_def)
  have "approvalGate env sid approvalTimeoutMinutes tn targs stored trace
          = (fst (orchestratorEntity (clkTimeout env) (deliver sid (inbox env k') stored2) ?rej),
             trace @ EntityCall ?op # (evs @ [EntityCall ?rej]),
             Inr (ApprovalHandled
                    (''[TIMEOUT] Request timed out after '' @ showInt approvalTimeoutMinutes @ '' minutes'')
                    sid tn targs))"
    using approvalGate_unfold[OF poll] by simp
  with q2 show ?thesis by blast
qed

lemma find_append_none:
  "\<forall>x \<in> set xs. \<not> P x \<Longrightarrow> List.find P (xs @ ys) = List.find P ys"
  by (induction xs) auto



lemma pendingCount_zero:
  "pendingCount sid stored = 0 \<longleftrightarrow>
   (\<forall>a \<in> set (pendingApprovals (getState stored (initialApprovalState clk))).
      \<not> (sessionId a = sid \<and> status a = Pending))"
  by (cases stored) (auto simp: pendingCount_def getState_def initialApprovalState_def filter_empty_conv)

lemma pendingCount_addMessage:
  "pendingCount sid (fst (orchestratorEntity clk stored (O_AddMessage r c))) = pendingCount sid stored"
  by (cases stored) (simp_all add: pendingCount_def getState_def initialApprovalState_def addMessage_def)

lemma pendingCount_addApprovalRequest:
  "pendingCount sid (fst (orchestratorEntity clk stored (O_AddApprovalRequest sid tn targs why)))
     = Suc (pendingCount sid stored)"
  by (cases stored) (simp_all add: pendingCount_def getState_def initialApprovalState_def Let_def)

lemma filter_updateFirst:
  assumes "\<And>x. \<not> P (f x)"
  shows "length (filter P (updateFirst P f xs)) = length (filter P xs) - 1"
  using assms by (induction xs) auto

lemma find_None_filter: "List.find P xs = None \<Longrightarrow> filter P xs = []"
  by (induction xs) (auto split: if_splits)

lemma pendingCount_handleApproval:
  "pendingCount sid (fst (orchestratorEntity clk stored (O_HandleApproval sid d response)))
     = pendingCount sid stored - 1"
proof (cases "List.find (\<lambda>a. sessionId a = sid \<and> status a = Pending)
                (pendingApprovals (getState stored (initialApprovalState clk)))")
  case None
  then have "fst (orchestratorEntity clk stored (O_HandleApproval sid d response)) = stored"
    by (simp add: Let_def)
  moreover have "pendingCount sid stored = 0"
    using find_None_filter[OF None]
    by (cases stored) (simp_all add: pendingCount_def getState_def)
  ultimately show ?thesis by simp
next
  case (Some a)
  have unresolved: "\<not> (sessionId (resolve clk d response x) = sid \<and> status (resolve clk d response x) = Pending)"
    for x :: SessionApprovalRequest
    by (cases d) (simp_all add: resolve_def)
  show ?thesis
  proof (cases stored)
    case None
    with Some show ?thesis by (simp add: getState_def initialApprovalState_def)
  next
    case (Some state)
    with \<open>List.find _ _ = Some a\<close> show ?thesis
      using filter_updateFirst[of "\<lambda>a. sessionId a = sid \<and> status a = Pending" "resolve clk d response"
              "pendingApprovals state", OF unresolved]
      by (simp add: pendingCount_def getState_def Let_def)
  qed
qed

lemma pendingCount_deliver: "pendingCount sid (deliver sid signals stored) \<le> pendingCount sid stored"
proof (induction signals arbitrary: stored)
  case Nil
  then show ?case by (simp add: deliver_def)
next
  case (Cons s signals)
  obtain clk d response where s: "s = (clk, d, response)" by (cases s)
  let ?next = "fst (orchestratorEntity clk stored (O_HandleApproval sid d response))"
  have step: "deliver sid (s # signals) stored = deliver sid signals ?next"
    by (simp add: deliver_def s)
  have "pendingCount sid (deliver sid signals ?next) \<le> pendingCount sid ?next"
    by (rule Cons.IH)
  also have "\<dots> \<le> pendingCount sid stored"
    by (simp only: pendingCount_handleApproval diff_le_self)
  finally show ?case by (simp only: step)
qed

lemma pendingCount_pollApproval:
  "pendingCount sid (fst (snd (snd (pollApproval env sid tn timeoutDate now k stored trace))))
     \<le> pendingCount sid stored"
proof (induction "nat (timeoutDate - now)" arbitrary: now k stored trace rule: less_induct)
  case less
  show ?case
  proof (cases "now < timeoutDate")
    case False
    then show ?thesis by (simp add: pollApproval.simps)
  next
    case True
    let ?now' = "now + 5000 + int (lateness env k)"
    have "nat (timeoutDate - ?now') < nat (timeoutDate - now)"
      using True by simp
    from less[OF this, of "Suc k" "deliver sid (inbox env k) stored"
           "trace @ [TimerFired (now + 5000), EntityCall O_GetState]"]
    have "pendingCount sid (fst (snd (snd (pollApproval env sid tn timeoutDate now k stored trace))))
            \<le> pendingCount sid (deliver sid (inbox env k) stored)"
      by (simp add: pollApproval_step[OF True])
    with pendingCount_deliver[of sid "inbox env k" stored] show ?thesis by simp
  qed
qed

lemma pendingCount_approvalGate:
  assumes "pendingCount sid stored = 0"
  shows "pendingCount sid (fst (approvalGate env sid approvalTimeoutMinutes tn targs stored trace)) = 0"
proof -
  let ?op = "O_AddApprovalRequest sid tn targs (''AI wants to execute '' @ tn @ '' with: '' @ stringify env targs)"
  let ?rej = "O_HandleApproval sid DecisionRejected
                (Some (''Timeout after '' @ showInt approvalTimeoutMinutes @ '' minutes''))"
  let ?stored1 = "fst (orchestratorEntity (clkRequest env) stored ?op)"
  let ?T = "startTime env + approvalTimeoutMinutes * 60 * 1000"
  from pollApproval_events[of env sid tn ?T "startTime env" 0 ?stored1 "trace @ [EntityCall ?op]"]
  obtain k' stored2 evs where poll:
      "pollApproval env sid tn ?T (startTime env) 0 ?stored1 (trace @ [EntityCall ?op])
         = (None, k', stored2, (trace @ [EntityCall ?op]) @ evs)"
    by blast
  from pendingCount_pollApproval[of sid env tn ?T "startTime env" 0 ?stored1 "trace @ [EntityCall ?op]"]
  have "pendingCount sid stored2 \<le> pendingCount sid ?stored1"
    by (simp only: poll fst_conv snd_conv)
  then have "pendingCount sid stored2 \<le> 1"
    using assms by (simp only: pendingCount_addApprovalRequest)
  with pendingCount_deliver[of sid "inbox env k'" stored2]
  have "pendingCount sid (deliver sid (inbox env k') stored2) \<le> 1" by simp
  then have "pendingCount sid (fst (orchestratorEntity (clkTimeout env) (deliver sid (inbox env k') stored2) ?rej)) = 0"
    by (simp only: pendingCount_handleApproval)
  then show ?thesis
    by (simp only: approvalGate_unfold[OF poll] fst_conv)
qed

lemma pendingCount_processToolCalls:
  assumes "pendingCount sid stored = 0"
  shows "pendingCount sid (fst (processToolCalls env sid m calls final stored trace)) = 0"
  using assms
proof (induction calls arbitrary: final trace)
  case Nil
  then show ?case by simp
next
  case (Cons c calls)
  show ?case
  proof (cases "functionArguments c")
    case (Inl e)
    with Cons.prems show ?thesis by simp
  next
    case (Inr targs)
    note parsed = Inr
    show ?thesis
    proof (cases "functionName c \<in> set (humanApprovalTools env)")
      case True
      obtain stored' trace' r where g: "approvalGate env sid m (functionName c) targs stored trace = (stored', trace', r)"
        by (cases "approvalGate env sid m (functionName c) targs stored trace")
      from pendingCount_approvalGate[OF Cons.prems, of env m "functionName c" targs trace] g
      have "pendingCount sid stored' = 0" by simp
      with parsed True g show ?thesis by (cases r) simp_all
    next
      case False
      show ?thesis
      proof (cases "executeTool (toolRegistry env) (functionName c) targs")
        case (Inl e)
        with parsed False Cons.prems show ?thesis by simp
      next
        case (Inr toolResult)
        with parsed False Cons.IH[OF Cons.prems] show ?thesis by simp
      qed
    qed
  qed
qed

text \<open>
  A turn leaves no pending request of its session behind, whatever is signalled while it
  runs: in a session whose turns run one after another, every gated call starts without
  an earlier pending request.
\<close>

lemma turn_leaves_no_pending:
  assumes "pendingCount sid stored = 0"
  shows "pendingCount sid (fst (humanInLoopOrchestrator env message sid m stored)) = 0"
proof -
  let ?stored1 = "fst (orchestratorEntity (clkUserMessage env) stored (O_AddMessage User message))"
  let ?trace1 = "[EntityCall (O_AddMessage User message), ProcessMessageActivity]"
  have one: "pendingCount sid ?stored1 = 0"
    using assms by (simp only: pendingCount_addMessage)
  show ?thesis
  proof (cases "processMessage env")
    case (Inl e)
    with one show ?thesis
      by (simp only: humanInLoopOrchestrator_def callEntity_state Let_def case_prod_beta fst_conv snd_conv
            sum.case)
  next
    case (Inr response)
    let ?calls = "case tool_calls response of None \<Rightarrow> [] | Some calls \<Rightarrow> calls"
    let ?final = "orDefault (aiContent response) ''No response generated''"
    obtain stored2 trace2 r where p:
        "processToolCalls env sid m ?calls ?final ?stored1 ?trace1 = (stored2, trace2, r)"
      by (cases "processToolCalls env sid m ?calls ?final ?stored1 ?trace1")
    from pendingCount_processToolCalls[OF one, of env m ?calls ?final ?trace1] p
    have two: "pendingCount sid stored2 = 0" by simp
    have three: "pendingCount sid (fst (orchestratorEntity (clkAssistantMessage env) stored2
                                           (O_AddMessage Assistant f))) = 0" for f
      using two by (simp only: pendingCount_addMessage)
    show ?thesis
      using two three
      by (cases r)
         (simp_all only: humanInLoopOrchestrator_def callEntity_state Let_def case_prod_beta fst_conv snd_conv
            sum.case Inr p prod.case loop_result.case)
  qed
qed



lemma processToolCalls_ungated:
  assumes "\<forall>c \<in> set calls. functionName c \<notin> set (humanApprovalTools env)"
  shows "\<exists>evs r. processToolCalls env sid m calls final stored trace = (stored, trace @ evs, r)
           \<and> requestedApprovals evs = []
           \<and> (\<forall>final'. r = LoopDone final' \<longrightarrow> executedTools evs = map functionName calls)
           \<and> (\<forall>output. r \<noteq> LoopReturned output)"
  using assms
proof (induction calls arbitrary: final trace)
  case Nil
  then show ?case by (simp add: requestedApprovals_def executedTools_def)
next
  case (Cons c calls)
  show ?case
  proof (cases "functionArguments c")
    case (Inl e)
    then show ?thesis by (simp add: requestedApprovals_def executedTools_def)
  next
    case (Inr targs)
    note parsed = Inr
    let ?ev = "ExecuteToolActivity (functionName c) targs"
    from Cons.prems have ungated: "functionName c \<notin> set (humanApprovalTools env)"
      and rest: "\<forall>c \<in> set calls. functionName c \<notin> set (humanApprovalTools env)" by simp_all
    show ?thesis
    proof (cases "executeTool (toolRegistry env) (functionName c) targs")
      case (Inl e)
      have "processToolCalls env sid m (c # calls) final stored trace = (stored, trace @ [?ev], LoopThrew e)"
        using parsed Inl ungated by simp
      moreover have "requestedApprovals [?ev] = []" by (simp add: requestedApprovals_def)
      ultimately show ?thesis by blast
    next
      case (Inr toolResult)
      have step: "processToolCalls env sid m (c # calls) final stored trace
               = processToolCalls env sid m calls toolResult stored (trace @ [?ev])"
        using parsed Inr ungated by simp
      from Cons.IH[OF rest, of toolResult "trace @ [?ev]"]
      obtain evs r where r: "processToolCalls env sid m calls toolResult stored (trace @ [?ev])
                               = (stored, (trace @ [?ev]) @ evs, r)"
          "requestedApprovals evs = []"
          "\<forall>final'. r = LoopDone final' \<longrightarrow> executedTools evs = map functionName calls"
          "\<forall>output. r \<noteq> LoopReturned output"
        by blast
      have "processToolCalls env sid m (c # calls) final stored trace = (stored, trace @ (?ev # evs), r)"
        using step r(1) by simp
      moreover have "requestedApprovals (?ev # evs) = []"
        using r(2) by (simp add: requestedApprovals_def)
      moreover have "\<forall>final'. r = LoopDone final' \<longrightarrow> executedTools (?ev # evs) = map functionName (c # calls)"
        using r(3) by (simp add: executedTools_def)
      ultimately show ?thesis using r(4) by blast
    qed
  qed
qed

lemma wrapper_turn:
  "executeOpenAIChatWithHumanApproval wrapperEnvironment ''s1'' []
     = ([(''approval-s1-makePayment-1735725600000'',
          \<lparr>storedToolName = ''makePayment'', storedToolArgs = paymentArgs,
           storedReasoning = ''The AI wants to execute makePayment with the provided arguments.'',
           storedSessionId = ''s1'', storedTimestamp = ''2025-01-01T10:00:00.000Z'',
           storedStatus = Pending, feedback = None, decidedAt = None, executionResult = None,
           executedAt = None, executionError = None\<rparr>)],
        [(''makePayment'', paymentArgs)],
        Inr ''The payment was made.'')"
  by (simp add: executeOpenAIChatWithHumanApproval_def wrapperEnvironment_def paymentCall_def
        requestHumanApproval_def execute_payment orDefault_def showInt_def showNat.simps Let_def)

lemma always_approved:
  "\<forall>dateNow isoNow sid tn targs why pending.
     resultDecision (fst (requestHumanApproval dateNow isoNow sid tn targs why pending)) = DecisionApproved"
  by (simp add: requestHumanApproval_def Let_def)

lemma wrapper_reject_later:
  "processApprovalDecision financialToolRegistry ''2025-01-01T10:05:00.000Z'' ''2025-01-01T10:05:00.001Z''
     ''approval-s1-makePayment-1735725600000'' False (Some ''not authorized'')
     (fst (executeOpenAIChatWithHumanApproval wrapperEnvironment ''s1'' []))
   = ([(''approval-s1-makePayment-1735725600000'',
          \<lparr>storedToolName = ''makePayment'', storedToolArgs = paymentArgs,
           storedReasoning = ''The AI wants to execute makePayment with the provided arguments.'',
           storedSessionId = ''s1'', storedTimestamp = ''2025-01-01T10:00:00.000Z'',
           storedStatus = Rejected, feedback = Some ''not authorized'',
           decidedAt = Some ''2025-01-01T10:05:00.000Z'', executionResult = None,
           executedAt = None, executionError = None\<rparr>)],
      [], Inr True)"
  by (simp add: wrapper_turn processApprovalDecision_def Let_def)


lemma pollApproval_first_wait:
  assumes "now < timeoutDate" and "\<forall>j \<ge> Suc 0. inbox env j = []"
  shows "\<exists>k' evs. pollApproval env sid tn timeoutDate now 0 stored trace
                     = (None, k', deliver sid (inbox env 0) stored, trace @ evs)
                   \<and> Suc 0 \<le> k' \<and> executedTools evs = [] \<and> requestedApprovals evs = []"
proof -
  let ?round = "[TimerFired (now + 5000), EntityCall O_GetState]"
  from pollApproval_events[of env sid tn timeoutDate "now + 5000 + int (lateness env 0)" "Suc 0"
         "deliver sid (inbox env 0) stored" "trace @ ?round"] assms(2)
  obtain k' evs where r:
      "pollApproval env sid tn timeoutDate (now + 5000 + int (lateness env 0)) (Suc 0)
         (deliver sid (inbox env 0) stored) (trace @ ?round)
       = (None, k', deliver sid (inbox env 0) stored, (trace @ ?round) @ evs)"
      "Suc 0 \<le> k'" "executedTools evs = []" "requestedApprovals evs = []"
    by blast
  have "pollApproval env sid tn timeoutDate now 0 stored trace
          = (None, k', deliver sid (inbox env 0) stored, trace @ (?round @ evs))"
    using pollApproval_step[OF assms(1), of env sid tn 0 stored trace] r(1) by simp
  moreover have "executedTools (?round @ evs) = []" "requestedApprovals (?round @ evs) = []"
    using r(3,4) by (simp_all add: executedTools_def requestedApprovals_def)
  ultimately show ?thesis using r(2) by blast
qed

text \<open>
  The orchestrator at an input where the human approves during the first wait: the poll
  never sees the decision, the gate times out after the 30 minutes, the executor does not
  run, and the call of \<open>checkAccountBalance\<close> that follows is never reached.
\<close>

lemma approved_but_timed_out:
  "\<exists>trace.
     humanInLoopOrchestrator (approvingEnvironment [paymentCall, balanceCall]) ''pay and show balance'' ''s1'' 30 None
       = (Some \<lparr>chatHistory = [\<lparr>role = User, content = ''pay and show balance'',
                                   timestamp = ''2025-01-01T09:00:00.001Z''\<rparr>],
                createdAt = ''2025-01-01T09:00:00.000Z'', lastUpdated = ''2025-01-01T09:00:03.002Z'',
                pendingApprovals =
                  [\<lparr>toolName = ''makePayment'', toolArgs = paymentArgs,
                    reasoning = ''AI wants to execute makePayment with: {...}'',
                    requestTimestamp = ''2025-01-01T09:00:00.001Z'', status = Approved,
                    humanResponse = Some ''go'', humanResponseTimestamp = Some ''2025-01-01T09:00:03.001Z'',
                    sessionId = ''s1''\<rparr>]\<rparr>,
          trace,
          Inr (ApprovalHandled ''[TIMEOUT] Request timed out after 30 minutes'' ''s1'' ''makePayment'' paymentArgs))
     \<and> requestedApprovals trace = [''makePayment'']
     \<and> executedTools trace = []"
proof -
  let ?env = "approvingEnvironment [paymentCall, balanceCall]"
  let ?msg = "''pay and show balance''"
  let ?why = "''AI wants to execute '' @ ''makePayment'' @ '' with: '' @ stringify ?env paymentArgs"
  let ?op = "O_AddApprovalRequest ''s1'' ''makePayment'' paymentArgs ?why"
  let ?rej = "O_HandleApproval ''s1'' DecisionRejected (Some (''Timeout after '' @ showInt 30 @ '' minutes''))"
  let ?trace1 = "[EntityCall (O_AddMessage User ?msg), ProcessMessageActivity]"
  let ?s0 = "\<lparr>chatHistory = [\<lparr>role = User, content = ?msg, timestamp = ''2025-01-01T09:00:00.001Z''\<rparr>],
              createdAt = ''2025-01-01T09:00:00.000Z'', lastUpdated = ''2025-01-01T09:00:00.002Z'',
              pendingApprovals = [] :: SessionApprovalRequest list\<rparr>"
  let ?pending = "\<lparr>toolName = ''makePayment'', toolArgs = paymentArgs,
                    reasoning = ''AI wants to execute makePayment with: {...}'',
                    requestTimestamp = ''2025-01-01T09:00:00.001Z'', status = Pending,
                    humanResponse = None, humanResponseTimestamp = None, sessionId = ''s1''\<rparr>"
  let ?s1 = "?s0\<lparr>pendingApprovals := [?pending]\<rparr>"
  let ?s2 = "\<lparr>chatHistory = [\<lparr>role = User, content = ?msg, timestamp = ''2025-01-01T09:00:00.001Z''\<rparr>],
              createdAt = ''2025-01-01T09:00:00.000Z'', lastUpdated = ''2025-01-01T09:00:03.002Z'',
              pendingApprovals =
                [\<lparr>toolName = ''makePayment'', toolArgs = paymentArgs,
                  reasoning = ''AI wants to execute makePayment with: {...}'',
                  requestTimestamp = ''2025-01-01T09:00:00.001Z'', status = Approved,
                  humanResponse = Some ''go'', humanResponseTimestamp = Some ''2025-01-01T09:00:03.001Z'',
                  sessionId = ''s1''\<rparr>]\<rparr>"
  have sel: "clkUserMessage ?env = clockEarly" "clkRequest ?env = clockEarly" "clkTimeout ?env = clockB"
      "startTime ?env = 0" "inbox ?env 0 = [(clockSignal, DecisionApproved, Some ''go'')]"
      "humanApprovalTools ?env = [''makePayment'']"
      "processMessage ?env = Inr \<lparr>aiContent = None, tool_calls = Some [paymentCall, balanceCall]\<rparr>"
    by (simp_all add: approvingEnvironment_def quietEnvironment_def)
  have later: "\<forall>j \<ge> Suc 0. inbox ?env j = []"
    by (simp add: approvingEnvironment_def quietEnvironment_def)
  have msg: "fst (orchestratorEntity clockEarly None (O_AddMessage User ?msg)) = Some ?s0"
    by (simp add: getState_def initialApprovalState_def addMessage_def clockEarly_def)
  have add: "fst (orchestratorEntity (clkRequest ?env) (Some ?s0) ?op) = Some ?s1"
    by (simp add: sel getState_def clockEarly_def approvingEnvironment_def quietEnvironment_def)
  have signal: "deliver ''s1'' (inbox ?env 0) (Some ?s1) = Some ?s2"
    by (simp add: sel deliver_def getState_def resolve_def clockSignal_def)
  have rejected: "fst (orchestratorEntity (clkTimeout ?env) (Some ?s2) ?rej) = Some ?s2"
    by (simp add: getState_def)
  have start: "startTime ?env < startTime ?env + 30 * 60 * 1000"
    by simp
  from pollApproval_first_wait[OF start later, of "''s1''" "''makePayment''" "Some ?s1"
         "?trace1 @ [EntityCall ?op]"]
  obtain k' evs where poll:
      "pollApproval ?env ''s1'' ''makePayment'' (startTime ?env + 30 * 60 * 1000) (startTime ?env) 0
         (Some ?s1) (?trace1 @ [EntityCall ?op])
       = (None, k', deliver ''s1'' (inbox ?env 0) (Some ?s1), (?trace1 @ [EntityCall ?op]) @ evs)"
    and k': "Suc 0 \<le> k'" and ex: "executedTools evs = []" and rq: "requestedApprovals evs = []"
    by blast
  have empty: "inbox ?env k' = []"
    using later k' by blast
  let ?trace = "((?trace1 @ [EntityCall ?op]) @ evs) @ [EntityCall ?rej]"
  have gate: "approvalGate ?env ''s1'' 30 ''makePayment'' paymentArgs (Some ?s0) ?trace1
        = (Some ?s2, ?trace,
           Inr (ApprovalHandled (''[TIMEOUT] Request timed out after '' @ showInt 30 @ '' minutes'')
                  ''s1'' ''makePayment'' paymentArgs))"
    using approvalGate_unfold[of ?env "''s1''" "''makePayment''" 30 "Some ?s0" paymentArgs ?trace1 k'
            "deliver ''s1'' (inbox ?env 0) (Some ?s1)" "(?trace1 @ [EntityCall ?op]) @ evs"] poll
    by (simp only: add signal empty deliver_Nil rejected)
  have thirty: "''[TIMEOUT] Request timed out after '' @ showInt 30 @ '' minutes''
                  = ''[TIMEOUT] Request timed out after 30 minutes''"
    by (simp add: showInt_def showNat.simps)
  have loop: "processToolCalls ?env ''s1'' 30 [paymentCall, balanceCall] ''No response generated''
                (Some ?s0) ?trace1
              = (Some ?s2, ?trace,
                 LoopReturned (ApprovalHandled ''[TIMEOUT] Request timed out after 30 minutes''
                                 ''s1'' ''makePayment'' paymentArgs))"
  proof -
    have call: "functionArguments paymentCall = Inr paymentArgs" "functionName paymentCall = ''makePayment''"
      by (simp_all add: paymentCall_def)
    show ?thesis
      by (simp only: processToolCalls.simps call sum.case sel list.set insert_iff if_True gate
            thirty prod.case simp_thms)
  qed
  have turn: "humanInLoopOrchestrator ?env ?msg ''s1'' 30 None
              = (Some ?s2, ?trace,
                 Inr (ApprovalHandled ''[TIMEOUT] Request timed out after 30 minutes''
                        ''s1'' ''makePayment'' paymentArgs))"
    by (simp only: humanInLoopOrchestrator_def callEntity_state Let_def case_prod_beta fst_conv snd_conv
          msg sel sum.case AiMessage.simps option.case orDefault_def loop prod.case loop_result.case)
  have "requestedApprovals ?trace = [''makePayment'']" "executedTools ?trace = []"
    using ex rq by (simp_all add: executedTools_def requestedApprovals_def)
  with turn show ?thesis by blast
qed

text \<open>
  C1. The routing of gated tool calls, evaluated at the inputs where it departs from
  "one approval request, then the executor if and only if the recorded decision is
  approved". In \<open>durableWrapper.ts\<close>, \<open>requestHumanApproval\<close> answers \<open>approved\<close> for every
  input, so a turn that requests the gated \<open>makePayment\<close> runs the executor while the
  stored request is pending, and a later rejection through \<open>processApprovalDecision\<close> is
  recorded after the payment was made. In the orchestrator of
  \<open>durableAgentOrchestrator.ts\<close> the poll never receives the entity's state: when the human
  approves \<open>makePayment\<close> during the first wait, the request is recorded as approved, yet
  the gate waits for the deadline, answers with the timeout text and never runs the
  executor; the \<open>return\<close> inside the approval branch then ends the turn, so the call of
  \<open>checkAccountBalance\<close> (not gated) that follows is not executed either.
\<close>

theorem approval_gate_at_failing_inputs:
  "(\<forall>dateNow isoNow sid tn targs why pending.
      resultDecision (fst (requestHumanApproval dateNow isoNow sid tn targs why pending)) = DecisionApproved)
   \<and> executeOpenAIChatWithHumanApproval wrapperEnvironment ''s1'' []
     = ([(''approval-s1-makePayment-1735725600000'',
          \<lparr>storedToolName = ''makePayment'', storedToolArgs = paymentArgs,
           storedReasoning = ''The AI wants to execute makePayment with the provided arguments.'',
           storedSessionId = ''s1'', storedTimestamp = ''2025-01-01T10:00:00.000Z'',
           storedStatus = Pending, feedback = None, decidedAt = None, executionResult = None,
           executedAt = None, executionError = None\<rparr>)],
        [(''makePayment'', paymentArgs)],
        Inr ''The payment was made.'')
   \<and> processApprovalDecision financialToolRegistry ''2025-01-01T10:05:00.000Z'' ''2025-01-01T10:05:00.001Z''
       ''approval-s1-makePayment-1735725600000'' False (Some ''not authorized'')
       (fst (executeOpenAIChatWithHumanApproval wrapperEnvironment ''s1'' []))
     = ([(''approval-s1-makePayment-1735725600000'',
          \<lparr>storedToolName = ''makePayment'', storedToolArgs = paymentArgs,
           storedReasoning = ''The AI wants to execute makePayment with the provided arguments.'',
           storedSessionId = ''s1'', storedTimestamp = ''2025-01-01T10:00:00.000Z'',
           storedStatus = Rejected, feedback = Some ''not authorized'',
           decidedAt = Some ''2025-01-01T10:05:00.000Z'', executionResult = None,
           executedAt = None, executionError = None\<rparr>)],
        [], Inr True)
   \<and> (\<exists>trace.
        humanInLoopOrchestrator (approvingEnvironment [paymentCall, balanceCall]) ''pay and show balance''
          ''s1'' 30 None
        = (Some \<lparr>chatHistory = [\<lparr>role = User, content = ''pay and show balance'',
                                    timestamp = ''2025-01-01T09:00:00.001Z''\<rparr>],
                 createdAt = ''2025-01-01T09:00:00.000Z'', lastUpdated = ''2025-01-01T09:00:03.002Z'',
                 pendingApprovals =
                   [\<lparr>toolName = ''makePayment'', toolArgs = paymentArgs,
                     reasoning = ''AI wants to execute makePayment with: {...}'',
                     requestTimestamp = ''2025-01-01T09:00:00.001Z'', status = Approved,
                     humanResponse = Some ''go'', humanResponseTimestamp = Some ''2025-01-01T09:00:03.001Z'',
                     sessionId = ''s1''\<rparr>]\<rparr>,
           trace,
           Inr (ApprovalHandled ''[TIMEOUT] Request timed out after 30 minutes'' ''s1'' ''makePayment''
                  paymentArgs))
        \<and> requestedApprovals trace = [''makePayment'']
        \<and> executedTools trace = [])"
  using always_approved wrapper_turn wrapper_reject_later approved_but_timed_out by (intro conjI)

end
